theory Spec2Isabelle
  imports Main
begin

section \<open>Python values and exceptions\<close>

text \<open>
  The server module works on three kinds of Python values: wire values (what a
  serialization format decodes: \<open>None\<close>, booleans, integers, strings, lists and
  string-keyed dicts), expression values of the engine (operation nodes, the hashable
  \<open>_slice\<close> wrapper, interactive symbols, tuples, the builtin \<open>slice\<close>) and
  opaque objects that are only passed along (type descriptors, dataset handles).
  An object found in one of the engine's namespaces is identified by the module that
  defines it and by its \<open>__name__\<close>.
\<close>

datatype pyclass = PyClass (cls_module: string) (cls_name: string)

datatype pyval =
    PNone
  | PBool bool
  | PInt int
  | PStr string
  | PObj string
  | PTuple "pyval list"
  | PList "pyval list"
  | PDict "(string \<times> pyval) list"
  | PSlice pyval pyval pyval
  | PHSlice pyval pyval pyval
  | PExpr pyclass "pyval list"
  | PISym pyval pyval pyval

text \<open>
  \<open>PSlice\<close> is the builtin \<open>slice(start, stop, step)\<close>, \<open>PHSlice\<close> is
  \<open>expr_utils._slice\<close>, \<open>PExpr c args\<close> is an expression node whose type is \<open>c\<close>
  and whose \<open>_args\<close> are \<open>args\<close>, and \<open>PISym name dshape data\<close> is an
  \<open>InteractiveSymbol\<close>. Values are compared structurally; Python's identification of
  \<open>True\<close> with \<open>1\<close> as a dictionary key is outside this model.

  An exception is its type's name, the names of the type's base classes and its text
  (\<open>str(e)\<close>).
\<close>

datatype pyexc = PyExc (exc_type: string) (exc_bases: "string list") (exc_str: string)

definition isinstance_exc :: "pyexc \<Rightarrow> string \<Rightarrow> bool" where
  "isinstance_exc e c = (exc_type e = c \<or> c \<in> set (exc_bases e))"

definition TypeError :: "string \<Rightarrow> pyexc" where
  "TypeError msg = PyExc ''TypeError'' [''Exception'', ''BaseException''] msg"

definition ValueError :: "string \<Rightarrow> pyexc" where
  "ValueError msg = PyExc ''ValueError'' [''Exception'', ''BaseException''] msg"

definition KeyError :: "string \<Rightarrow> pyexc" where
  "KeyError msg = PyExc ''KeyError'' [''LookupError'', ''Exception'', ''BaseException''] msg"

definition IndexError :: "string \<Rightarrow> pyexc" where
  "IndexError msg = PyExc ''IndexError'' [''LookupError'', ''Exception'', ''BaseException''] msg"

definition AttributeError :: "string \<Rightarrow> pyexc" where
  "AttributeError msg = PyExc ''AttributeError'' [''Exception'', ''BaseException''] msg"

definition AssertionError :: "string \<Rightarrow> pyexc" where
  "AssertionError msg = PyExc ''AssertionError'' [''Exception'', ''BaseException''] msg"

text \<open>A list comprehension evaluates its elements in order; the first exception leaves it.\<close>

fun sequence :: "(pyexc + 'a) list \<Rightarrow> pyexc + 'a list" where
  "sequence [] = Inr []"
| "sequence (r # rs) =
     (case r of
        Inl e \<Rightarrow> Inl e
      | Inr x \<Rightarrow> (case sequence rs of Inl e \<Rightarrow> Inl e | Inr xs \<Rightarrow> Inr (x # xs)))"

text \<open>
  Hashing: lists, dicts and the builtin \<open>slice\<close> are unhashable (the module needs
  \<open>collections.MutableMapping\<close> and \<open>flask.ext\<close>, so it runs on interpreters older
  than 3.10, where \<open>hash(slice(...))\<close> raises \<open>TypeError\<close>). A tuple hashes its
  elements; \<open>_slice\<close> hashes the tuple of its bounds and an expression node the tuple
  of its arguments; an interactive symbol hashes the identity of its data.
\<close>

fun hashable :: "pyval \<Rightarrow> bool" where
  "hashable (PTuple xs) = list_all hashable xs"
| "hashable (PList xs) = False"
| "hashable (PDict kvs) = False"
| "hashable (PSlice a b c) = False"
| "hashable (PHSlice a b c) = (hashable a \<and> hashable b \<and> hashable c)"
| "hashable (PExpr c args) = list_all hashable args"
| "hashable v = True"

text \<open>
  \<open>d and k in d\<close> followed by \<open>d[k]\<close>, for an optional dict \<open>d\<close> (\<open>None\<close> and
  the empty dict are both false): the bound value when there is one, \<open>None\<close> when the
  test is false, \<open>TypeError\<close> when the key cannot be hashed.
\<close>

definition lookup_if_present ::
  "(pyval \<times> pyval) list option \<Rightarrow> pyval \<Rightarrow> pyexc + pyval option" where
  "lookup_if_present d k =
     (case d of
        None \<Rightarrow> Inr None
      | Some kvs \<Rightarrow>
          if kvs = [] then Inr None
          else if \<not> hashable k then Inl (TypeError ''unhashable type'')
          else Inr (map_of kvs k))"

text \<open>\<open>'Symbol' in op\<close>: substring test on strings.\<close>

fun str_contains :: "string \<Rightarrow> string \<Rightarrow> bool" where
  "str_contains sub [] = (sub = [])"
| "str_contains sub (c # cs) = (take (length sub) (c # cs) = sub \<or> str_contains sub cs)"

section \<open>Encoding: \<open>to_tree\<close>\<close>

definition Symbol_class :: pyclass where
  "Symbol_class = PyClass ''blaze.expr.expressions'' ''Symbol''"

text \<open>
  Modelled from the spec: \<open>symbol(name, dshape)\<close> of the expression package, which is
  not among the sources. It builds the Symbol node whose arguments are the triple
  name, type descriptor, flag (\<open>False\<close> when not given).
\<close>

definition symbol :: "pyval \<Rightarrow> pyval \<Rightarrow> pyval" where
  "symbol name dshape = PExpr Symbol_class [name, dshape, PBool False]"

text \<open>The measure under which \<open>to_tree\<close> terminates: \<open>as_slice()\<close> and
  \<open>symbol(...)\<close> replace a value by one of smaller weight.\<close>

fun weight :: "pyval \<Rightarrow> nat" where
  "weight (PTuple xs) = Suc (sum_list (map weight xs))"
| "weight (PSlice a b c) = Suc (weight a + weight b + weight c)"
| "weight (PHSlice a b c) = Suc (Suc (weight a + weight b + weight c))"
| "weight (PExpr c args) = Suc (sum_list (map weight args))"
| "weight (PISym n ds d) = Suc (Suc (weight n + weight ds + weight d))"
| "weight v = 0"

lemma weight_member: "x \<in> set xs \<Longrightarrow> weight x \<le> sum_list (map weight xs)"
  by (induction xs) auto

function to_tree :: "(pyval \<times> pyval) list option \<Rightarrow> pyval \<Rightarrow> pyexc + pyval" where
  "to_tree names expr =
     (case lookup_if_present names expr of
        Inl e \<Rightarrow> Inl e
      | Inr (Some alias) \<Rightarrow> Inr alias
      | Inr None \<Rightarrow>
          (case expr of
             PTuple xs \<Rightarrow>
               (case sequence (map (to_tree names) xs) of
                  Inl e \<Rightarrow> Inl e
                | Inr ts \<Rightarrow> Inr (PList ts))
           | PHSlice a b c \<Rightarrow> to_tree names (PSlice a b c)
           | PSlice a b c \<Rightarrow>
               (case sequence (map (to_tree names) [a, b, c]) of
                  Inl e \<Rightarrow> Inl e
                | Inr ts \<Rightarrow> Inr (PDict [(''op'', PStr ''slice''), (''args'', PList ts)]))
           | PISym n ds d \<Rightarrow> to_tree names (symbol n ds)
           | PExpr c args \<Rightarrow>
               (case sequence (map (to_tree names) args) of
                  Inl e \<Rightarrow> Inl e
                | Inr ts \<Rightarrow> Inr (PDict [(''op'', PStr (cls_name c)), (''args'', PList ts)]))
           | _ \<Rightarrow> Inr expr))"
  by pat_completeness auto
termination
proof (relation "measure (\<lambda>(names, expr). weight expr)")
  show "wf (measure (\<lambda>(names, expr). weight expr))"
    by simp
qed (auto simp: symbol_def dest: weight_member)

declare to_tree.simps [simp del]

section \<open>Resolving an operation tag\<close>

text \<open>
  The engine is not among the sources; what the decoder reads of it is a parameter:
  the attributes of the package \<open>blaze\<close> and of \<open>blaze.expr\<close> (name to object), the
  signatures that key \<open>compute_up.funcs\<close> in iteration order, and what calling a
  resolved object on the decoded children returns or raises.
\<close>

record engine =
  blaze_ns :: "(string \<times> pyclass) list"
  blaze_expr_ns :: "(string \<times> pyclass) list"
  compute_up_funcs :: "pyclass list list"
  construct :: "pyclass \<Rightarrow> pyval list \<Rightarrow> pyexc + pyval"

text \<open>
  The loop over \<open>compute_up.funcs\<close>: \<open>signature[0]\<close> of an empty signature raises
  \<open>IndexError\<close>, which the loop's \<open>except TypeError\<close> does not catch.
\<close>

fun scan_funcs :: "pyclass list list \<Rightarrow> string \<Rightarrow> pyexc + pyclass" where
  "scan_funcs [] name = Inl (ValueError (name @ '' not found in compute_up''))"
| "scan_funcs ([] # rest) name = Inl (IndexError ''tuple index out of range'')"
| "scan_funcs ((c # cs) # rest) name =
     (if cls_name c = name then Inr c else scan_funcs rest name)"

definition expression_from_name :: "engine \<Rightarrow> string \<Rightarrow> pyexc + pyclass" where
  "expression_from_name eng name =
     (case map_of (blaze_ns eng) name of
        Some c \<Rightarrow> Inr c
      | None \<Rightarrow>
          (case map_of (blaze_expr_ns eng) name of
             Some c \<Rightarrow> Inr c
           | None \<Rightarrow> scan_funcs (compute_up_funcs eng) name))"

section \<open>Decoding: \<open>from_tree\<close>\<close>

text \<open>The class of a tag inside \<open>from_tree\<close>: \<open>getattr(blaze.expr, op)\<close> when
  \<open>hasattr(blaze.expr, op)\<close>, else \<open>expression_from_name(op)\<close>.\<close>

definition resolve_op :: "engine \<Rightarrow> string \<Rightarrow> pyexc + pyclass" where
  "resolve_op eng tag =
     (case map_of (blaze_expr_ns eng) tag of
        Some c \<Rightarrow> Inr c
      | None \<Rightarrow> expression_from_name eng tag)"

definition getitem :: "(string \<times> pyval) list \<Rightarrow> string \<Rightarrow> pyexc + pyval" where
  "getitem kvs k = (case map_of kvs k of None \<Rightarrow> Inl (KeyError k) | Some v \<Rightarrow> Inr v)"

text \<open>\<open>for arg in args\<close>: a list or tuple gives its elements, a string its
  characters, a dict its keys; the other wire values are not iterable (nor is, in this
  model, a value that no format decodes).\<close>

definition py_iter :: "pyval \<Rightarrow> pyexc + pyval list" where
  "py_iter v =
     (case v of
        PList xs \<Rightarrow> Inr xs
      | PTuple xs \<Rightarrow> Inr xs
      | PStr s \<Rightarrow> Inr (map (\<lambda>c. PStr [c]) s)
      | PDict kvs \<Rightarrow> Inr (map (\<lambda>kv. PStr (fst kv)) kvs)
      | _ \<Rightarrow> Inl (TypeError ''object is not iterable''))"

text \<open>
  Modelled from the spec: \<open>expr_utils._slice(*children)\<close>, whose class is not among
  the sources. A slice has exactly the three fields start, stop and step; any other
  number of arguments is a \<open>TypeError\<close> of the call.
\<close>

definition hslice_call :: "pyval list \<Rightarrow> pyexc + pyval" where
  "hslice_call children =
     (case children of
        [a, b, c] \<Rightarrow> Inr (PHSlice a b c)
      | _ \<Rightarrow> Inl (TypeError ''__init__() takes exactly 4 arguments''))"

lemma getitem_size: "getitem kvs k = Inr v \<Longrightarrow> size v < size (PDict kvs)"
proof -
  assume "getitem kvs k = Inr v"
  then have "(k, v) \<in> set kvs"
    by (auto simp: getitem_def split: option.splits dest: map_of_SomeD)
  then have "size v < Suc (size_list (size_prod (\<lambda>x. 0) size) kvs)"
    by (induction kvs) auto
  then show ?thesis by simp
qed

lemma py_iter_size: "py_iter v = Inr xs \<Longrightarrow> x \<in> set xs \<Longrightarrow> size x \<le> size v"
proof (cases v)
  case (PList ys)
  assume "py_iter v = Inr xs" "x \<in> set xs"
  with PList have "x \<in> set ys" by (simp add: py_iter_def)
  then have "size x \<le> size_list size ys" by (induction ys) auto
  with PList show ?thesis by simp
next
  case (PTuple ys)
  assume "py_iter v = Inr xs" "x \<in> set xs"
  with PTuple have "x \<in> set ys" by (simp add: py_iter_def)
  then have "size x \<le> size_list size ys" by (induction ys) auto
  with PTuple show ?thesis by simp
qed (auto simp: py_iter_def)

lemma arg_size:
  assumes "getitem kvs k = Inr args" and "py_iter args = Inr xs" and "x \<in> set xs"
  shows "size x \<le> size_list (size_prod (\<lambda>x. 0) size) kvs"
  using getitem_size [OF assms(1)] py_iter_size [OF assms(2) assms(3)] by simp

function from_tree ::
  "engine \<Rightarrow> pyval \<Rightarrow> (pyval \<times> pyval) list option \<Rightarrow> pyexc + pyval" where
  "from_tree eng expr namespace =
     (case expr of
        PDict kvs \<Rightarrow>
          (case getitem kvs ''op'' of
             Inl e \<Rightarrow> Inl e
           | Inr op \<Rightarrow>
          (case getitem kvs ''args'' of
             Inl e \<Rightarrow> Inl e
           | Inr args \<Rightarrow>
               if op = PStr ''slice'' then
                 (case py_iter args of
                    Inl e \<Rightarrow> Inl e
                  | Inr xs \<Rightarrow>
                      (case sequence (map (\<lambda>arg. from_tree eng arg namespace) xs) of
                         Inl e \<Rightarrow> Inl e
                       | Inr children \<Rightarrow> hslice_call children))
               else
                 (case op of
                    PStr tag \<Rightarrow>
                      (case resolve_op eng tag of
                         Inl e \<Rightarrow> Inl e
                       | Inr cls \<Rightarrow>
                           (case py_iter args of
                              Inl e \<Rightarrow> Inl e
                            | Inr xs \<Rightarrow>
                                (case (if str_contains ''Symbol'' tag
                                       then sequence (map (\<lambda>arg. from_tree eng arg None) xs)
                                       else sequence (map (\<lambda>arg. from_tree eng arg namespace) xs)) of
                                   Inl e \<Rightarrow> Inl e
                                 | Inr children \<Rightarrow> construct eng cls children)))
                  | _ \<Rightarrow> Inl (TypeError ''hasattr(): attribute name must be string''))))
      | PList xs \<Rightarrow>
          (case sequence (map (\<lambda>arg. from_tree eng arg namespace) xs) of
             Inl e \<Rightarrow> Inl e
           | Inr ys \<Rightarrow> Inr (PTuple ys))
      | PTuple xs \<Rightarrow>
          (case sequence (map (\<lambda>arg. from_tree eng arg namespace) xs) of
             Inl e \<Rightarrow> Inl e
           | Inr ys \<Rightarrow> Inr (PTuple ys))
      | _ \<Rightarrow>
          (case lookup_if_present namespace expr of
             Inl e \<Rightarrow> Inl e
           | Inr (Some v) \<Rightarrow> Inr v
           | Inr None \<Rightarrow> Inr expr))"
  by pat_completeness auto
termination
  by (relation "measure (\<lambda>(eng, expr, namespace). size expr)")
     (auto simp: less_Suc_eq_le size_list_estimation' intro: arg_size)

declare from_tree.simps [simp del]

section \<open>The server: responses, formats, registered state\<close>

text \<open>
  A view function returns a text (status 200), a pair of a text and a status, or a
  \<open>Response\<close> with headers; an exception that leaves the view function reaches the
  web framework.
\<close>

record response =
  resp_body :: string
  resp_status :: nat
  resp_headers :: "(string \<times> string) list"

definition reply :: "string \<Rightarrow> nat \<Rightarrow> response" where
  "reply txt code = \<lparr>resp_body = txt, resp_status = code, resp_headers = []\<rparr>"

text \<open>A serialization format: an object with \<open>name\<close>, \<open>loads\<close>, \<open>dumps\<close>,
  \<open>data_dumps\<close> and \<open>materialize\<close>.\<close>

record format =
  fmt_name :: string
  loads :: "string \<Rightarrow> pyexc + pyval"
  dumps :: "pyval \<Rightarrow> pyexc + string"
  data_dumps :: "pyval \<Rightarrow> pyexc + pyval"
  materialize :: "pyval \<Rightarrow> pyval \<Rightarrow> pyval \<Rightarrow> pyexc + pyval"

text \<open>What \<open>_register_api\<close> stores for the running application: the data, the formats
  by name, the authorization callable and the profiler triple.\<close>

record server =
  srv_data :: pyval
  srv_formats :: "(string \<times> format) list"
  srv_auth :: "(string \<times> string) option \<Rightarrow> bool"
  allow_profiler :: bool
  profiler_output :: pyval
  profile_by_default :: bool

text \<open>A request: its headers (a mapping from lower-case header names to values), its
  credentials and its body.\<close>

record request =
  req_headers :: "(string \<times> string) list"
  req_authorization :: "(string \<times> string) option"
  req_data :: string

text \<open>
  The collaborators that are not among the sources are parameters: the engine's
  namespaces, \<open>discover\<close>, \<open>expr._leaves()\<close>, \<open>compute\<close> (called with the
  expression, the leaf, the dataset and the keyword arguments), \<open>expr.dshape\<close>,
  \<open>expr.fields\<close>, \<open>pprint\<close>, \<open>resource\<close>, the names of \<open>all_formats\<close>,
  \<open>%s\<close> of a value's type, \<open>ensure_dir\<close>, and the profiler's two ends: opening the
  file under \<open>_prof_path\<close> and the marshalled statistics.
\<close>

record externals =
  env_engine :: engine
  discover :: "pyval \<Rightarrow> pyexc + pyval"
  leaves_of :: "pyval \<Rightarrow> pyexc + pyval list"
  compute :: "pyval \<Rightarrow> pyval \<Rightarrow> pyval \<Rightarrow> pyval \<Rightarrow> pyexc + pyval"
  dshape_of :: "pyval \<Rightarrow> pyexc + pyval"
  fields_of :: "pyval \<Rightarrow> pyexc + pyval"
  pprint :: "pyval \<Rightarrow> pyexc + string"
  resource :: "pyval \<Rightarrow> pyexc + pyval"
  all_formats :: "string list"
  type_repr :: "pyval \<Rightarrow> string"
  ensure_dir :: "pyval \<Rightarrow> pyexc + unit"
  open_prof_file :: "pyval \<Rightarrow> pyval \<Rightarrow> pyexc + unit"
  marshal_stats :: "pyexc + string"

fun truthy :: "pyval \<Rightarrow> bool" where
  "truthy PNone = False"
| "truthy (PBool b) = b"
| "truthy (PInt i) = (i \<noteq> 0)"
| "truthy (PStr s) = (s \<noteq> [])"
| "truthy (PTuple xs) = (xs \<noteq> [])"
| "truthy (PList xs) = (xs \<noteq> [])"
| "truthy (PDict kvs) = (kvs \<noteq> [])"
| "truthy v = True"

subsection \<open>Registration of the profiler options\<close>

definition register_profiler_info ::
  "externals \<Rightarrow> bool \<Rightarrow> pyval \<Rightarrow> bool \<Rightarrow> pyexc + bool \<times> pyval \<times> bool" where
  "register_profiler_info env allow out by_default =
     (if \<not> allow \<and> (truthy out \<or> by_default) then
        Inl (ValueError (''cannot set ''
          @ (if truthy out then ''profiler_output'' else [])
          @ (if truthy out \<and> by_default then '' or '' else [])
          @ (if by_default then ''profile_by_default'' else [])
          @ '' when '' @ [CHR 0x27] @ ''allow_profiler'' @ [CHR 0x27] @ '' is False''))
      else if allow then
        (let out' = (if out = PNone then PStr ''profiler_output'' else out) in
         if out' \<noteq> PStr '':response'' then
           (case ensure_dir env out' of
              Inl e \<Rightarrow> Inl e
            | Inr u \<Rightarrow> Inr (allow, out', by_default))
         else Inr (allow, out', by_default))
      else Inr (allow, out, by_default))"

subsection \<open>The decorators \<open>authorization\<close> and \<open>check_request\<close>\<close>

definition authorization ::
  "(request \<Rightarrow> server \<Rightarrow> (pyexc + response) \<times> server) \<Rightarrow>
   request \<Rightarrow> server \<Rightarrow> (pyexc + response) \<times> server" where
  "authorization f req srv =
     (if \<not> srv_auth srv (req_authorization req) then
        (Inr \<lparr>resp_body = ''bad auth token'', resp_status = 401,
              resp_headers = [(''WWW-Authenticate'',
                ''Basic realm='' @ [CHR 0x22] @ ''Login Required'' @ [CHR 0x22])]\<rparr>, srv)
      else f req srv)"

text \<open>
  \<open>mimetype_regex.match\<close>: the pattern is \<open>^application/vnd\.blaze\+(n1|n2|...)$\<close>
  over the names of \<open>all_formats\<close> (names without regular-expression operators;
  with no name at all the group is empty); \<open>$\<close> also matches before one final
  newline. The result is the group.
\<close>

definition mimetype_match :: "string list \<Rightarrow> string \<Rightarrow> string option" where
  "mimetype_match names content_type =
     find (\<lambda>n. content_type = ''application/vnd.blaze+'' @ n
              \<or> content_type = ''application/vnd.blaze+'' @ n @ [CHR 0x0A])
       (if names = [] then [[]] else names)"

text \<open>
  \<open>%s\<close> of the request body: \<open>request.data\<close> is a \<open>bytes\<close> object (the module
  calls \<open>datetime.timestamp\<close>, so it runs on Python 3), whose text is its literal:
  \<open>b\<close>, a quote, the bytes with backslash, the quote, tab, newline and carriage
  return escaped and every byte outside the printable ASCII range written \<open>\xhh\<close>,
  and the quote again. The quote is the single quote, unless the bytes contain a
  single quote and no double quote.
\<close>

definition hex_digit :: "nat \<Rightarrow> char" where
  "hex_digit n = ''0123456789abcdef'' ! (n mod 16)"

definition bytes_quote :: "string \<Rightarrow> char" where
  "bytes_quote s = (if CHR 0x27 \<in> set s \<and> CHR 0x22 \<notin> set s then CHR 0x22 else CHR 0x27)"

definition escape_byte :: "char \<Rightarrow> char \<Rightarrow> string" where
  "escape_byte q c =
     (if c = q \<or> c = CHR 0x5C then [CHR 0x5C, c]
      else if c = CHR 0x09 then [CHR 0x5C, CHR ''t'']
      else if c = CHR 0x0A then [CHR 0x5C, CHR ''n'']
      else if c = CHR 0x0D then [CHR 0x5C, CHR ''r'']
      else if (of_char c :: nat) < 32 \<or> 127 \<le> (of_char c :: nat) then
        [CHR 0x5C, CHR ''x'', hex_digit (of_char c div 16), hex_digit (of_char c)]
      else [c])"

definition bytes_repr :: "string \<Rightarrow> string" where
  "bytes_repr s =
     CHR ''b'' # bytes_quote s # concat (map (escape_byte (bytes_quote s)) s) @ [bytes_quote s]"

text \<open>\<open>request.headers['content-type']\<close>: the value bound to the header, a
  \<open>KeyError\<close> when the mapping has no such key.\<close>

definition header_getitem :: "(string \<times> string) list \<Rightarrow> string \<Rightarrow> pyexc + string" where
  "header_getitem hs k = (case map_of hs k of None \<Rightarrow> Inl (KeyError k) | Some v \<Rightarrow> Inr v)"

definition check_request ::
  "externals \<Rightarrow> (pyval \<Rightarrow> format \<Rightarrow> server \<Rightarrow> (pyexc + response) \<times> server) \<Rightarrow>
   request \<Rightarrow> server \<Rightarrow> (pyexc + response) \<times> server" where
  "check_request env f req srv =
     (case header_getitem (req_headers req) ''content-type'' of
        Inl e \<Rightarrow> (Inl e, srv)
      | Inr content_type \<Rightarrow>
          (case mimetype_match (all_formats env) content_type of
             None \<Rightarrow>
               (Inr (reply (''Unsupported serialization format '' @ content_type) 415), srv)
           | Some matched \<Rightarrow>
               (case map_of (srv_formats srv) matched of
                  None \<Rightarrow>
                    (Inr (reply (''Unsupported serialization format '' @ [CHR 0x27] @ matched
                                 @ [CHR 0x27]) 415), srv)
                | Some serial \<Rightarrow>
                    (case loads serial (req_data req) of
                       Inl e \<Rightarrow>
                         if isinstance_exc e ''ValueError''
                         then (Inr (reply (''Bad data.  Got '' @ bytes_repr (req_data req) @ '' '')
                                   400), srv)
                         else (Inl e, srv)
                     | Inr payload \<Rightarrow> f payload serial srv))))"

subsection \<open>\<open>compserver\<close>\<close>

text \<open>\<open>payload.get(k, default)\<close> and \<open>payload[k]\<close> on the pairs of a dict.\<close>

definition dict_get :: "(string \<times> pyval) list \<Rightarrow> string \<Rightarrow> pyval \<Rightarrow> pyval" where
  "dict_get kvs k dflt = (case map_of kvs k of None \<Rightarrow> dflt | Some v \<Rightarrow> v)"

fun dict_set :: "(string \<times> pyval) list \<Rightarrow> string \<Rightarrow> pyval \<Rightarrow> (string \<times> pyval) list" where
  "dict_set [] k v = [(k, v)]"
| "dict_set ((k', v') # kvs) k v =
     (if k' = k then (k, v) # kvs else (k', v') # dict_set kvs k v)"

definition setitem :: "pyval \<Rightarrow> string \<Rightarrow> pyval \<Rightarrow> pyexc + pyval" where
  "setitem d k v =
     (case d of
        PDict kvs \<Rightarrow> Inr (PDict (dict_set kvs k v))
      | _ \<Rightarrow> Inl (TypeError ''object does not support item assignment''))"

text \<open>The namespace dict of a payload, as the key-value pairs \<open>from_tree\<close> looks up.\<close>

definition as_namespace :: "pyval \<Rightarrow> (pyval \<times> pyval) list option" where
  "as_namespace ns =
     (case ns of
        PDict kvs \<Rightarrow> Some (map (\<lambda>kv. (PStr (fst kv), snd kv)) kvs)
      | _ \<Rightarrow> None)"

definition or_empty :: "pyval \<Rightarrow> pyval" where
  "or_empty v = (if truthy v then v else PDict [])"

text \<open>\<open>profiling\<close>, as the truth value the two \<open>if profiling:\<close> tests read.\<close>

definition profiling_on :: "server \<Rightarrow> pyval \<Rightarrow> pyval \<Rightarrow> bool" where
  "profiling_on srv profile requested =
     (allow_profiler srv \<and> (truthy profile \<or> (profile_by_default srv \<and> truthy requested)))"

text \<open>The namespace handed to the decoder: the payload's \<open>namespace\<close> (default
  \<open>{}\<close>) with \<open>':leaf'\<close> assigned.\<close>

definition leaf_namespace ::
  "externals \<Rightarrow> server \<Rightarrow> (string \<times> pyval) list \<Rightarrow> pyexc + pyval" where
  "leaf_namespace env srv kvs =
     (case discover env (srv_data srv) of
        Inl e \<Rightarrow> Inl e
      | Inr ds \<Rightarrow> setitem (dict_get kvs ''namespace'' (PDict [])) '':leaf'' (symbol (PStr ''leaf'') ds))"

text \<open>\<open>ns[':leaf'] = symbol('leaf', discover(dataset))\<close> and
  \<open>expr = from_tree(payload['expr'], namespace=ns)\<close>.\<close>

definition decode_payload ::
  "externals \<Rightarrow> server \<Rightarrow> (string \<times> pyval) list \<Rightarrow> pyexc + pyval" where
  "decode_payload env srv kvs =
     (case leaf_namespace env srv kvs of
        Inl e \<Rightarrow> Inl e
      | Inr ns \<Rightarrow>
          (case getitem kvs ''expr'' of
             Inl e \<Rightarrow> Inl e
           | Inr tree \<Rightarrow> from_tree (env_engine env) tree (as_namespace ns)))"

text \<open>The \<open>try\<close> block: \<open>serial.materialize(compute(expr, {leaf: dataset},
  **compute_kwargs), expr.dshape, odo_kwargs)\<close>.\<close>

definition execute ::
  "externals \<Rightarrow> format \<Rightarrow> pyval \<Rightarrow> pyval \<Rightarrow> pyval \<Rightarrow> pyval \<Rightarrow> pyval \<Rightarrow> pyexc + pyval" where
  "execute env serial expr leaf dataset compute_kwargs odo_kwargs =
     (case compute env expr leaf dataset compute_kwargs of
        Inl e \<Rightarrow> Inl e
      | Inr raw \<Rightarrow>
          (case dshape_of env expr of
             Inl e \<Rightarrow> Inl e
           | Inr ds \<Rightarrow> materialize serial raw ds odo_kwargs))"

text \<open>After the \<open>try\<close> block: the response dict, the profiler's output when
  profiling, and \<open>serial.dumps\<close>.\<close>

definition finish ::
  "externals \<Rightarrow> format \<Rightarrow> bool \<Rightarrow> pyval \<Rightarrow> pyval \<Rightarrow> pyval \<Rightarrow> pyexc + response" where
  "finish env serial profiling requested expr result =
     (case dshape_of env expr of
        Inl e \<Rightarrow> Inl e
      | Inr ds \<Rightarrow>
     (case pprint env ds of
        Inl e \<Rightarrow> Inl e
      | Inr shape_text \<Rightarrow>
     (case data_dumps serial result of
        Inl e \<Rightarrow> Inl e
      | Inr dumped \<Rightarrow>
     (case fields_of env expr of
        Inl e \<Rightarrow> Inl e
      | Inr field_names \<Rightarrow>
     (let resp = [(''datashape'', PStr shape_text), (''data'', dumped), (''names'', field_names)] in
      case (if profiling then
              (if requested = PStr '':response'' then
                 (case marshal_stats env of
                    Inl e \<Rightarrow> Inl e
                  | Inr bytes \<Rightarrow>
                      Inr (dict_set resp ''profiler_output'' (PDict [(''__!bytes'', PStr bytes)])))
               else
                 (case open_prof_file env requested expr of
                    Inl e \<Rightarrow> Inl e
                  | Inr u \<Rightarrow>
                      (case marshal_stats env of Inl e \<Rightarrow> Inl e | Inr bytes \<Rightarrow> Inr resp)))
            else Inr resp) of
        Inl e \<Rightarrow> Inl e
      | Inr resp' \<Rightarrow>
          (case dumps serial (PDict resp') of
             Inl e \<Rightarrow> Inl e
           | Inr txt \<Rightarrow> Inr (reply txt 200)))))))"

text \<open>From the assertion on the leaves to the response.\<close>

definition serve_expr ::
  "externals \<Rightarrow> format \<Rightarrow> server \<Rightarrow> (string \<times> pyval) list \<Rightarrow> bool \<Rightarrow> pyval \<Rightarrow> pyval \<Rightarrow>
   pyexc + response" where
  "serve_expr env serial srv kvs profiling requested expr =
     (case leaves_of env expr of
        Inl e \<Rightarrow> Inl e
      | Inr leaves \<Rightarrow>
          (case leaves of
             [leaf] \<Rightarrow>
               (case execute env serial expr leaf (srv_data srv)
                       (or_empty (dict_get kvs ''compute_kwargs'' PNone))
                       (or_empty (dict_get kvs ''odo_kwargs'' PNone)) of
                  Inl e \<Rightarrow>
                    if isinstance_exc e ''NotImplementedError'' then
                      Inr (reply (''Computation not supported:'' @ [CHR 0x0A] @ exc_str e) 501)
                    else if isinstance_exc e ''Exception'' then
                      Inr (reply (''Computation failed with message:'' @ [CHR 0x0A]
                                  @ exc_type e @ '': '' @ exc_str e) 500)
                    else Inl e
                | Inr result \<Rightarrow> finish env serial profiling requested expr result)
           | _ \<Rightarrow> Inl (AssertionError [])))"

definition compserver_result :: "externals \<Rightarrow> pyval \<Rightarrow> format \<Rightarrow> server \<Rightarrow> pyexc + response" where
  "compserver_result env payload serial srv =
     (case payload of
        PDict kvs \<Rightarrow>
          (let requested = dict_get kvs ''profiler_output'' (profiler_output srv);
               profile = dict_get kvs ''profile'' PNone;
               profiling = profiling_on srv profile requested
           in
           if truthy profile \<and> \<not> allow_profiler srv then
             Inr (reply ''profiling is disabled on this server'' 403)
           else if profiling \<and> profiler_output srv = PStr '':response''
                   \<and> requested \<noteq> PStr '':response'' then
             Inr (reply (''local filepaths are disabled on this server, only ''
                         @ [CHR 0x27] @ '':response'' @ [CHR 0x27] @ '' is allowed for the ''
                         @ [CHR 0x27] @ ''profiler_output'' @ [CHR 0x27] @ '' field'') 403)
           else
             (case decode_payload env srv kvs of
                Inl e \<Rightarrow> Inl e
              | Inr expr \<Rightarrow> serve_expr env serial srv kvs profiling requested expr))
      | _ \<Rightarrow> Inl (AttributeError ''object has no attribute get''))"

definition compserver ::
  "externals \<Rightarrow> pyval \<Rightarrow> format \<Rightarrow> server \<Rightarrow> (pyexc + response) \<times> server" where
  "compserver env payload serial srv = (compserver_result env payload serial srv, srv)"

subsection \<open>\<open>addserver\<close>\<close>

text \<open>\<open>toolz.valmap\<close>: the function applied to the values in order; \<open>dict.update\<close>:
  every pair assigned in order.\<close>

fun valmap ::
  "(pyval \<Rightarrow> pyexc + pyval) \<Rightarrow> (string \<times> pyval) list \<Rightarrow> pyexc + (string \<times> pyval) list" where
  "valmap f [] = Inr []"
| "valmap f ((k, v) # kvs) =
     (case f v of
        Inl e \<Rightarrow> Inl e
      | Inr w \<Rightarrow> (case valmap f kvs of Inl e \<Rightarrow> Inl e | Inr r \<Rightarrow> Inr ((k, w) # r)))"

fun dict_update :: "(string \<times> pyval) list \<Rightarrow> (string \<times> pyval) list \<Rightarrow> (string \<times> pyval) list" where
  "dict_update d [] = d"
| "dict_update d ((k, v) # kvs) = dict_update (dict_set d k v) kvs"

definition addserver ::
  "externals \<Rightarrow> pyval \<Rightarrow> format \<Rightarrow> server \<Rightarrow> (pyexc + response) \<times> server" where
  "addserver env payload serial srv =
     (case srv_data srv of
        PDict registry \<Rightarrow>
          (case payload of
             PDict entries \<Rightarrow>
               (case valmap (resource env) entries of
                  Inl e \<Rightarrow> (Inl e, srv)
                | Inr resolved \<Rightarrow>
                    (Inr (reply ''OK'' 200),
                     srv\<lparr>srv_data := PDict (dict_update registry resolved)\<rparr>))
           | _ \<Rightarrow>
               (Inr (reply (''Cannot update blaze server with a '' @ type_repr env payload
                      @ '' payload, since it is not a mutable mapping (dictionary like).'')
                      422), srv))
      | _ \<Rightarrow>
          (Inr (reply (''Cannot update blaze server data since its current data is a ''
                 @ type_repr env (srv_data srv)
                 @ '' and not a mutable mapping (dictionary like).'') 422), srv))"

subsection \<open>The routes\<close>

definition compute_route :: "externals \<Rightarrow> request \<Rightarrow> server \<Rightarrow> (pyexc + response) \<times> server" where
  "compute_route env = authorization (check_request env (compserver env))"

definition add_route :: "externals \<Rightarrow> request \<Rightarrow> server \<Rightarrow> (pyexc + response) \<times> server" where
  "add_route env = authorization (check_request env (addserver env))"

section \<open>An example installation\<close>

text \<open>
  Concrete collaborators on which the model is run: an engine with a few classes and
  with the name \<open>utils\<close>, which both packages bind (to the module \<open>blaze.utils\<close>
  and to the module \<open>blaze.expr.utils\<close>, the one the server module imports); a
  dataset registry; a format that decodes one body.
\<close>

definition Field_class :: pyclass where
  "Field_class = PyClass ''blaze.expr.expressions'' ''Field''"

definition Slice_class :: pyclass where
  "Slice_class = PyClass ''blaze.expr.expressions'' ''Slice''"

definition sum_class :: pyclass where
  "sum_class = PyClass ''blaze.expr.reductions'' ''sum''"

definition Join_class :: pyclass where
  "Join_class = PyClass ''blaze.expr.collections'' ''Join''"

definition Like_class :: pyclass where
  "Like_class = PyClass ''blaze.expr.strings'' ''Like''"

definition blaze_utils :: pyclass where
  "blaze_utils = PyClass ''blaze'' ''utils''"

definition blaze_expr_utils :: pyclass where
  "blaze_expr_utils = PyClass ''blaze.expr'' ''utils''"

text \<open>Calling a class builds the node of the arguments; a module is not callable.\<close>

definition example_construct :: "pyclass \<Rightarrow> pyval list \<Rightarrow> pyexc + pyval" where
  "example_construct c args =
     (if c = blaze_utils \<or> c = blaze_expr_utils
      then Inl (TypeError ''module object is not callable'')
      else Inr (PExpr c args))"

definition example_engine :: engine where
  "example_engine =
     \<lparr>blaze_ns = [(''Symbol'', Symbol_class), (''Field'', Field_class), (''sum'', sum_class),
                  (''utils'', blaze_utils)],
      blaze_expr_ns = [(''Symbol'', Symbol_class), (''Field'', Field_class),
                       (''Slice'', Slice_class), (''sum'', sum_class), (''Join'', Join_class),
                       (''utils'', blaze_expr_utils)],
      compute_up_funcs = [[Field_class, PyClass ''pandas'' ''DataFrame''],
                          [Like_class, PyClass ''pandas'' ''Series'']],
      construct = example_construct\<rparr>"

text \<open>The leaves of a decoded expression in the example: its distinct Symbol nodes; a
  value that is no expression has no \<open>_leaves\<close>.\<close>

fun symbols_of :: "pyval \<Rightarrow> pyval list" where
  "symbols_of (PExpr c args) =
     (if c = Symbol_class then [PExpr c args] else concat (map symbols_of args))"
| "symbols_of v = []"

definition example_leaves :: "pyval \<Rightarrow> pyexc + pyval list" where
  "example_leaves e =
     (case e of
        PExpr c args \<Rightarrow> Inr (remdups (symbols_of e))
      | _ \<Rightarrow> Inl (AttributeError ''object has no attribute _leaves''))"

definition example_resource :: "pyval \<Rightarrow> pyexc + pyval" where
  "example_resource v =
     (case v of
        PStr uri \<Rightarrow> Inr (PObj uri)
      | _ \<Rightarrow> Inl (PyExc ''NotImplementedError'' [''RuntimeError'', ''Exception'', ''BaseException'']
                   ''Unable to parse uri to data resource''))"

text \<open>\<open>%s\<close> of the type of a value.\<close>

definition example_type_repr :: "pyval \<Rightarrow> string" where
  "example_type_repr v =
     ''<class '' @ [CHR 0x27]
     @ (case v of
          PNone \<Rightarrow> ''NoneType''
        | PBool b \<Rightarrow> ''bool''
        | PInt i \<Rightarrow> ''int''
        | PStr s \<Rightarrow> ''str''
        | PTuple xs \<Rightarrow> ''tuple''
        | PList xs \<Rightarrow> ''list''
        | PDict kvs \<Rightarrow> ''dict''
        | PObj s \<Rightarrow> s
        | _ \<Rightarrow> ''object'')
     @ [CHR 0x27] @ ''>''"

definition example_env :: externals where
  "example_env =
     \<lparr>env_engine = example_engine,
      discover = (\<lambda>d. Inr (PObj ''var * {id: int32, name: string, amount: int32}'')),
      leaves_of = example_leaves,
      compute = (\<lambda>e leaf d kw. Inr (PInt 100)),
      dshape_of = (\<lambda>e. Inr (PObj ''int32'')),
      fields_of = (\<lambda>e. Inr (PList [])),
      pprint = (\<lambda>ds. Inr ''int32''),
      resource = example_resource,
      all_formats = [''json'', ''pickle'', ''msgpack''],
      type_repr = example_type_repr,
      ensure_dir = (\<lambda>path. Inr ()),
      open_prof_file = (\<lambda>path e. Inr ()),
      marshal_stats = Inr ''stats''\<rparr>"

definition example_format :: format where
  "example_format =
     \<lparr>fmt_name = ''json'',
      loads = (\<lambda>s. if s = ''{}'' then Inr (PDict [])
                    else Inl (ValueError ''No JSON object could be decoded'')),
      dumps = (\<lambda>v. Inr ''response''),
      data_dumps = (\<lambda>v. Inr v),
      materialize = (\<lambda>raw ds kw. Inr raw)\<rparr>"

definition example_server :: server where
  "example_server =
     \<lparr>srv_data = PDict [(''accounts'', PObj ''accounts.csv'')],
      srv_formats = [(''json'', example_format)],
      srv_auth = (\<lambda>a. True),
      allow_profiler = False,
      profiler_output = PNone,
      profile_by_default = False\<rparr>"

text \<open>The same server as \<open>Server(data, allow_profiler=True,
  profiler_output=':response')\<close> registers it.\<close>

definition response_only_server :: server where
  "response_only_server =
     example_server\<lparr>allow_profiler := True, profiler_output := PStr '':response''\<rparr>"

definition wire_node :: "string \<Rightarrow> pyval list \<Rightarrow> pyval" where
  "wire_node tag args = PDict [(''op'', PStr tag), (''args'', PList args)]"

definition example_dshape :: pyval where
  "example_dshape = PObj ''var * {x: int32, y: int32}''"

text \<open>The same collaborators with a \<open>compute\<close> that fails.\<close>

definition unsupported_env :: externals where
  "unsupported_env =
     example_env\<lparr>compute := (\<lambda>e leaf d kw.
        Inl (PyExc ''NotImplementedError'' [''RuntimeError'', ''Exception'', ''BaseException'']
               ''Could not find signature for compute_up: <sum, list>''))\<rparr>"

definition failing_env :: externals where
  "failing_env =
     example_env\<lparr>compute := (\<lambda>e leaf d kw.
        Inl (PyExc ''ZeroDivisionError'' [''ArithmeticError'', ''Exception'', ''BaseException'']
               ''division by zero''))\<rparr>"

section \<open>Vocabulary of the properties\<close>

subsection \<open>Well-formed expression graphs and name tables\<close>

text \<open>A scalar is a value that both directions of the codec pass through: \<open>None\<close>, a
  boolean, an integer, a string, or an opaque object such as a type descriptor.\<close>

fun is_scalar :: "pyval \<Rightarrow> bool" where
  "is_scalar PNone = True"
| "is_scalar (PBool b) = True"
| "is_scalar (PInt i) = True"
| "is_scalar (PStr s) = True"
| "is_scalar (PObj s) = True"
| "is_scalar v = False"

fun is_str :: "pyval \<Rightarrow> bool" where
  "is_str (PStr s) = True"
| "is_str v = False"

fun is_node :: "pyval \<Rightarrow> bool" where
  "is_node (PExpr c args) = True"
| "is_node v = False"

definition is_symbol_like :: "pyclass \<Rightarrow> bool" where
  "is_symbol_like c = str_contains ''Symbol'' (cls_name c)"

text \<open>
  A well-formed expression graph is built from scalars, tuples, \<open>_slice\<close> values and
  operation nodes. Every node is the value its own class builds from its arguments,
  its class is what the decoder resolves its name to, and no class is named
  \<open>slice\<close>. A symbol-like node carries scalars only (its name, its type descriptor,
  its flag).
\<close>

fun well_formed :: "engine \<Rightarrow> pyval \<Rightarrow> bool" where
  "well_formed eng (PTuple xs) = list_all (well_formed eng) xs"
| "well_formed eng (PHSlice a b c) = (well_formed eng a \<and> well_formed eng b \<and> well_formed eng c)"
| "well_formed eng (PExpr c args) =
     (cls_name c \<noteq> ''slice'' \<and> resolve_op eng (cls_name c) = Inr c
      \<and> construct eng c args = Inr (PExpr c args)
      \<and> (if is_symbol_like c then list_all is_scalar args
         else list_all (well_formed eng) args))"
| "well_formed eng (PList xs) = False"
| "well_formed eng (PDict kvs) = False"
| "well_formed eng (PSlice a b c) = False"
| "well_formed eng (PISym n ds d) = False"
| "well_formed eng v = True"

text \<open>The scalars of a graph outside its symbol-like nodes, and whether a \<open>_slice\<close>
  occurs in it.\<close>

fun plain_scalars :: "pyval \<Rightarrow> pyval list" where
  "plain_scalars (PTuple xs) = concat (map plain_scalars xs)"
| "plain_scalars (PHSlice a b c) = plain_scalars a @ plain_scalars b @ plain_scalars c"
| "plain_scalars (PExpr c args) =
     (if is_symbol_like c then [] else concat (map plain_scalars args))"
| "plain_scalars v = [v]"

fun has_slice :: "pyval \<Rightarrow> bool" where
  "has_slice (PTuple xs) = list_ex has_slice xs"
| "has_slice (PHSlice a b c) = True"
| "has_slice (PExpr c args) = list_ex has_slice args"
| "has_slice v = False"

text \<open>A name table maps expression nodes to pairwise distinct strings; the namespace
  that inverts it maps each string back to its node.\<close>

definition name_table :: "(pyval \<times> pyval) list \<Rightarrow> bool" where
  "name_table names =
     (list_all (\<lambda>ka. is_node (fst ka) \<and> is_str (snd ka)) names \<and> distinct (map snd names))"

definition inverted :: "(pyval \<times> pyval) list \<Rightarrow> (pyval \<times> pyval) list" where
  "inverted names = map (\<lambda>ka. (snd ka, fst ka)) names"

subsection \<open>Plain bytes\<close>

text \<open>A byte that the literal of a \<open>bytes\<close> object shows as it is: printable ASCII
  other than the single quote and the backslash.\<close>

definition plain_byte :: "char \<Rightarrow> bool" where
  "plain_byte c =
     (32 \<le> (of_char c :: nat) \<and> (of_char c :: nat) < 127 \<and> c \<noteq> CHR 0x27 \<and> c \<noteq> CHR 0x5C)"

subsection \<open>Requests past the profiling gates\<close>

text \<open>A request that neither of the two profiling tests of \<open>compserver\<close> answers
  with 403.\<close>

definition passes_profiling_gates :: "server \<Rightarrow> (string \<times> pyval) list \<Rightarrow> bool" where
  "passes_profiling_gates srv kvs =
     (\<not> (truthy (dict_get kvs ''profile'' PNone) \<and> \<not> allow_profiler srv)
      \<and> \<not> (profiling_on srv (dict_get kvs ''profile'' PNone)
               (dict_get kvs ''profiler_output'' (profiler_output srv))
             \<and> profiler_output srv = PStr '':response''
             \<and> dict_get kvs ''profiler_output'' (profiler_output srv) \<noteq> PStr '':response''))"

section \<open>Lemmas about sequences, dicts and the example\<close>

lemma sequence_map_Inr:
  "(\<And>x. x \<in> set xs \<Longrightarrow> f x = Inr (g x)) \<Longrightarrow> sequence (map f xs) = Inr (map g xs)"
  by (induction xs) auto

lemma map_of_dict_set: "map_of (dict_set d k v) = (map_of d)(k \<mapsto> v)"
  by (induction d k v rule: dict_set.induct) (auto simp: fun_eq_iff)

lemma map_of_dict_update:
  "distinct (map fst new) \<Longrightarrow> map_of (dict_update d new) = map_of d ++ map_of new"
proof (induction d new rule: dict_update.induct)
  case (1 d)
  then show ?case by simp
next
  case (2 d k v kvs)
  then have "k \<notin> dom (map_of kvs)" by (auto simp: dom_map_of_conv_image_fst)
  with 2 show ?case
    by (auto simp: map_of_dict_set fun_eq_iff map_add_def split: option.splits)
qed

lemma map_of_as_namespace:
  "map_of (map (\<lambda>kv. (PStr (fst kv), snd kv)) kvs) (PStr k) = map_of kvs k"
  by (induction kvs) auto

lemma dict_set_nonempty: "dict_set kvs k v \<noteq> []"
  by (cases kvs) (auto split: if_splits)

lemma example_construct_class [simp]:
  "cls_name c \<noteq> ''utils'' \<Longrightarrow> example_construct c args = Inr (PExpr c args)"
  by (auto simp: example_construct_def blaze_utils_def blaze_expr_utils_def)

lemma compserver_after_gates:
  "passes_profiling_gates srv kvs \<Longrightarrow>
   compserver env (PDict kvs) serial srv =
     ((case decode_payload env srv kvs of
         Inl e \<Rightarrow> Inl e
       | Inr expr \<Rightarrow>
           serve_expr env serial srv kvs
             (profiling_on srv (dict_get kvs ''profile'' PNone)
                (dict_get kvs ''profiler_output'' (profiler_output srv)))
             (dict_get kvs ''profiler_output'' (profiler_output srv)) expr), srv)"
  by (auto simp: compserver_def compserver_result_def passes_profiling_gates_def Let_def)

section \<open>Properties of the decoder\<close>

lemma from_tree_scalar:
  "is_scalar v \<Longrightarrow> from_tree eng v None = Inr v"
  by (cases v) (simp_all add: from_tree.simps lookup_if_present_def)

lemma from_tree_node:
  assumes "getitem kvs ''op'' = Inr (PStr tag)" and "getitem kvs ''args'' = Inr args"
    and "py_iter args = Inr xs"
  shows "from_tree eng (PDict kvs) ns =
      (if tag = ''slice'' then
         (case sequence (map (\<lambda>arg. from_tree eng arg ns) xs) of
            Inl e \<Rightarrow> Inl e
          | Inr children \<Rightarrow> hslice_call children)
       else
         (case resolve_op eng tag of
            Inl e \<Rightarrow> Inl e
          | Inr cls \<Rightarrow>
              (case sequence (map (\<lambda>arg. from_tree eng arg
                                     (if str_contains ''Symbol'' tag then None else ns)) xs) of
                 Inl e \<Rightarrow> Inl e
               | Inr children \<Rightarrow> construct eng cls children)))"
  using assms by (subst from_tree.simps) (simp split: sum.splits)

lemma no_symbol_in_slice: "\<not> str_contains ''Symbol'' ''slice''"
  by simp

text \<open>
  Claim C2. When \<open>from_tree\<close> decodes a mapping \<open>{op, args}\<close> with a namespace:
  a tag that contains \<open>Symbol\<close> has each of its args decoded with no namespace (so
  the result does not depend on the namespace, and scalar args such as the symbol's
  name and type text are passed to the constructor unchanged, whatever the namespace
  binds them to); every other tag, \<open>slice\<close> included, has each arg decoded with
  the namespace.
\<close>

theorem symbol_args_decoded_without_namespace:
  assumes "getitem kvs ''op'' = Inr (PStr tag)" and "getitem kvs ''args'' = Inr args"
    and "py_iter args = Inr xs"
  shows "from_tree eng (PDict kvs) ns =
      (if tag = ''slice'' then
         (case sequence (map (\<lambda>arg. from_tree eng arg ns) xs) of
            Inl e \<Rightarrow> Inl e
          | Inr children \<Rightarrow> hslice_call children)
       else
         (case resolve_op eng tag of
            Inl e \<Rightarrow> Inl e
          | Inr cls \<Rightarrow>
              (case sequence (map (\<lambda>arg. from_tree eng arg
                                     (if str_contains ''Symbol'' tag then None else ns)) xs) of
                 Inl e \<Rightarrow> Inl e
               | Inr children \<Rightarrow> construct eng cls children)))
     \<and> (str_contains ''Symbol'' tag \<longrightarrow>
          from_tree eng (PDict kvs) ns = from_tree eng (PDict kvs) None)
     \<and> (str_contains ''Symbol'' tag \<and> list_all is_scalar xs \<longrightarrow>
          from_tree eng (PDict kvs) ns =
            (case resolve_op eng tag of Inl e \<Rightarrow> Inl e | Inr cls \<Rightarrow> construct eng cls xs))"
proof (intro conjI impI)
  show "from_tree eng (PDict kvs) ns =
      (if tag = ''slice'' then
         (case sequence (map (\<lambda>arg. from_tree eng arg ns) xs) of
            Inl e \<Rightarrow> Inl e
          | Inr children \<Rightarrow> hslice_call children)
       else
         (case resolve_op eng tag of
            Inl e \<Rightarrow> Inl e
          | Inr cls \<Rightarrow>
              (case sequence (map (\<lambda>arg. from_tree eng arg
                                     (if str_contains ''Symbol'' tag then None else ns)) xs) of
                 Inl e \<Rightarrow> Inl e
               | Inr children \<Rightarrow> construct eng cls children)))"
    by (rule from_tree_node [OF assms])
next
  assume sym: "str_contains ''Symbol'' tag"
  then have "tag \<noteq> ''slice''" using no_symbol_in_slice by auto
  with sym show "from_tree eng (PDict kvs) ns = from_tree eng (PDict kvs) None"
    by (simp add: from_tree_node [OF assms])
next
  assume a: "str_contains ''Symbol'' tag \<and> list_all is_scalar xs"
  then have ne: "tag \<noteq> ''slice''" using no_symbol_in_slice by auto
  from a have "sequence (map (\<lambda>arg. from_tree eng arg None) xs) = Inr (map (\<lambda>x. x) xs)"
    by (intro sequence_map_Inr) (auto simp: list_all_iff from_tree_scalar)
  with a ne show "from_tree eng (PDict kvs) ns =
            (case resolve_op eng tag of Inl e \<Rightarrow> Inl e | Inr cls \<Rightarrow> construct eng cls xs)"
    by (simp add: from_tree_node [OF assms] split: sum.splits)
qed

theorem symbol_args_decoded_without_namespace_witness:
  "from_tree example_engine
     (PDict [(''op'', PStr ''Symbol''), (''args'', PList [PStr ''t'', PStr ''int32'', PBool False])])
     (Some [(PStr ''t'', PInt 5)])
   = Inr (PExpr Symbol_class [PStr ''t'', PStr ''int32'', PBool False])
   \<and> from_tree example_engine
     (PDict [(''op'', PStr ''Field''), (''args'', PList [PStr ''t'', PStr ''x''])])
     (Some [(PStr ''t'', PInt 5)])
   = Inr (PExpr Field_class [PInt 5, PStr ''x''])"
proof -
  have s: "getitem [(''op'', PStr ''Symbol''), (''args'', PList [PStr ''t'', PStr ''int32'', PBool False])] ''op'' = Inr (PStr ''Symbol'')"
    "getitem [(''op'', PStr ''Symbol''), (''args'', PList [PStr ''t'', PStr ''int32'', PBool False])] ''args'' = Inr (PList [PStr ''t'', PStr ''int32'', PBool False])"
    "py_iter (PList [PStr ''t'', PStr ''int32'', PBool False]) = Inr [PStr ''t'', PStr ''int32'', PBool False]"
    by (simp_all add: getitem_def py_iter_def)
  have f: "getitem [(''op'', PStr ''Field''), (''args'', PList [PStr ''t'', PStr ''x''])] ''op'' = Inr (PStr ''Field'')"
    "getitem [(''op'', PStr ''Field''), (''args'', PList [PStr ''t'', PStr ''x''])] ''args'' = Inr (PList [PStr ''t'', PStr ''x''])"
    "py_iter (PList [PStr ''t'', PStr ''x'']) = Inr [PStr ''t'', PStr ''x'']"
    by (simp_all add: getitem_def py_iter_def)
  show ?thesis
    using symbol_args_decoded_without_namespace [OF s, of example_engine "Some [(PStr ''t'', PInt 5)]"]
      symbol_args_decoded_without_namespace [OF f, of example_engine "Some [(PStr ''t'', PInt 5)]"]
    by (simp add: resolve_op_def example_engine_def Symbol_class_def Field_class_def
        from_tree.simps lookup_if_present_def)
qed

section \<open>Resolution of operation tags\<close>





section \<open>The round trip of the codec\<close>

lemma scalar_hashable: "is_scalar v \<Longrightarrow> hashable v"
  by (cases v) simp_all

lemma scalar_not_node: "is_scalar v \<Longrightarrow> \<not> is_node v"
  by (cases v) simp_all

lemma well_formed_hashable: "well_formed eng e \<Longrightarrow> hashable e"
proof (induction e)
  case (PExpr c args)
  then show ?case
    by (cases "is_symbol_like c") (auto simp: list_all_iff scalar_hashable)
qed (auto simp: list_all_iff)

lemma name_table_key:
  "name_table names \<Longrightarrow> map_of names e = Some a \<Longrightarrow>
   names \<noteq> [] \<and> is_str a \<and> is_node e \<and> map_of (inverted names) a = Some e"
proof (induction names)
  case Nil
  then show ?case by simp
next
  case (Cons ka names)
  obtain k a' where ka: "ka = (k, a')" by (cases ka)
  show ?case
  proof (cases "k = e")
    case True
    with Cons.prems ka show ?thesis
      by (auto simp: name_table_def inverted_def)
  next
    case False
    with Cons.prems ka have m: "map_of names e = Some a" by simp
    from Cons.prems ka have nt: "name_table names" and d: "a' \<notin> snd ` set names"
      by (auto simp: name_table_def)
    from m have "(e, a) \<in> set names" by (rule map_of_SomeD)
    then have "a \<in> snd ` set names" by force
    with d have "a' \<noteq> a" by auto
    with Cons.IH [OF nt m] ka show ?thesis
      by (auto simp: inverted_def)
  qed
qed

lemma name_table_not_node:
  "name_table names \<Longrightarrow> \<not> is_node v \<Longrightarrow> map_of names v = None"
  by (induction names) (auto simp: name_table_def)

lemma inverse_not_alias:
  "a \<notin> snd ` set names \<Longrightarrow> map_of (inverted names) a = None"
  by (induction names) (auto simp: inverted_def)

lemma sequence_round_trip:
  "(\<And>x. x \<in> set xs \<Longrightarrow> \<exists>t. f x = Inr t \<and> g t = Inr x) \<Longrightarrow>
   \<exists>ts. sequence (map f xs) = Inr ts \<and> sequence (map g ts) = Inr xs"
proof (induction xs)
  case Nil
  then show ?case by simp
next
  case (Cons x xs)
  from Cons.prems obtain t where t: "f x = Inr t" "g t = Inr x" by auto
  from Cons obtain ts where ts: "sequence (map f xs) = Inr ts" "sequence (map g ts) = Inr xs"
    by auto
  from t ts have "sequence (map f (x # xs)) = Inr (t # ts) \<and> sequence (map g (t # ts)) = Inr (x # xs)"
    by simp
  then show ?case by blast
qed

lemma lookup_not_named:
  assumes "name_table names" and "hashable e" and "map_of names e = None"
  shows "lookup_if_present (Some names) e = Inr None"
  using assms by (simp add: lookup_if_present_def)

lemma to_tree_scalar:
  assumes "name_table names" and "is_scalar v"
  shows "to_tree (Some names) v = Inr v"
proof -
  from assms(2) have "\<not> is_node v" "hashable v"
    by (simp_all add: scalar_hashable scalar_not_node)
  with assms(1) have "lookup_if_present (Some names) v = Inr None"
    by (simp add: lookup_not_named name_table_not_node)
  with assms(2) show ?thesis
    by (cases v) (simp_all add: to_tree.simps)
qed

lemma from_tree_leaf:
  "is_scalar v \<Longrightarrow>
   from_tree eng v ns =
     (case lookup_if_present ns v of
        Inl e \<Rightarrow> Inl e
      | Inr (Some w) \<Rightarrow> Inr w
      | Inr None \<Rightarrow> Inr v)"
  by (cases v) (auto simp: from_tree.simps split: sum.splits option.splits)

lemma from_tree_alias:
  assumes "name_table names" and "map_of names e = Some a"
  shows "from_tree eng a (Some (inverted names)) = Inr e"
proof -
  from name_table_key [OF assms]
  have ne: "names \<noteq> []" and s: "is_str a" and m: "map_of (inverted names) a = Some e" by auto
  from s obtain s' where a: "a = PStr s'" by (cases a) auto
  from ne have "inverted names \<noteq> []" by (simp add: inverted_def)
  with m a show ?thesis
    by (simp add: from_tree_leaf lookup_if_present_def)
qed

lemma from_tree_plain_scalar:
  assumes "is_scalar v" and "v \<notin> snd ` set names"
  shows "from_tree eng v (Some (inverted names)) = Inr v"
proof -
  from assms(1) have "hashable v" by (rule scalar_hashable)
  with assms show ?thesis
    by (simp add: from_tree_leaf lookup_if_present_def inverse_not_alias)
qed


lemma to_tree_named:
  assumes "name_table names" and "map_of names e = Some a" and "hashable e"
  shows "to_tree (Some names) e = Inr a"
proof -
  from name_table_key [OF assms(1,2)] have "names \<noteq> []" by simp
  with assms have "lookup_if_present (Some names) e = Inr (Some a)"
    by (simp add: lookup_if_present_def)
  then show ?thesis by (simp add: to_tree.simps)
qed

lemma to_tree_tuple:
  "lookup_if_present nm (PTuple xs) = Inr None \<Longrightarrow>
   to_tree nm (PTuple xs) =
     (case sequence (map (to_tree nm) xs) of Inl e \<Rightarrow> Inl e | Inr ts \<Rightarrow> Inr (PList ts))"
  by (simp add: to_tree.simps)

lemma to_tree_node:
  "lookup_if_present nm (PExpr c args) = Inr None \<Longrightarrow>
   to_tree nm (PExpr c args) =
     (case sequence (map (to_tree nm) args) of
        Inl e \<Rightarrow> Inl e
      | Inr ts \<Rightarrow> Inr (PDict [(''op'', PStr (cls_name c)), (''args'', PList ts)]))"
  by (simp add: to_tree.simps)

lemma to_tree_hslice:
  "to_tree (Some []) (PHSlice a b c) =
     (case sequence (map (to_tree (Some [])) [a, b, c]) of
        Inl e \<Rightarrow> Inl e
      | Inr ts \<Rightarrow> Inr (PDict [(''op'', PStr ''slice''), (''args'', PList ts)]))"
  by (simp add: to_tree.simps [of _ "PHSlice a b c"] to_tree.simps [of _ "PSlice a b c"]
      lookup_if_present_def)

lemma from_tree_list:
  "from_tree eng (PList ts) ns =
     (case sequence (map (\<lambda>arg. from_tree eng arg ns) ts) of
        Inl e \<Rightarrow> Inl e
      | Inr ys \<Rightarrow> Inr (PTuple ys))"
  by (simp add: from_tree.simps)

lemma from_tree_wire_node:
  "from_tree eng (PDict [(''op'', PStr tag), (''args'', PList ts)]) ns =
      (if tag = ''slice'' then
         (case sequence (map (\<lambda>arg. from_tree eng arg ns) ts) of
            Inl e \<Rightarrow> Inl e
          | Inr children \<Rightarrow> hslice_call children)
       else
         (case resolve_op eng tag of
            Inl e \<Rightarrow> Inl e
          | Inr cls \<Rightarrow>
              (case sequence (map (\<lambda>arg. from_tree eng arg
                                     (if str_contains ''Symbol'' tag then None else ns)) ts) of
                 Inl e \<Rightarrow> Inl e
               | Inr children \<Rightarrow> construct eng cls children)))"
  using from_tree_node [of "[(''op'', PStr tag), (''args'', PList ts)]" tag "PList ts" ts eng ns]
  by (simp add: getitem_def py_iter_def)

lemma round_trip_scalar:
  assumes "name_table names" and "is_scalar v"
    and "\<forall>a \<in> snd ` set names. a \<notin> set (plain_scalars v)"
  shows "\<exists>t. to_tree (Some names) v = Inr t \<and> from_tree eng t (Some (inverted names)) = Inr v"
proof -
  from assms(2) have "plain_scalars v = [v]" by (cases v) simp_all
  with assms(3) have "v \<notin> snd ` set names" by auto
  with assms(1,2) show ?thesis
    by (simp add: to_tree_scalar from_tree_plain_scalar)
qed

lemma round_trip_aux:
  assumes nt: "name_table names"
  shows "well_formed eng e \<Longrightarrow> \<forall>a \<in> snd ` set names. a \<notin> set (plain_scalars e) \<Longrightarrow>
         names = [] \<or> \<not> has_slice e \<Longrightarrow>
         \<exists>t. to_tree (Some names) e = Inr t \<and> from_tree eng t (Some (inverted names)) = Inr e"
    (is "_ \<Longrightarrow> _ \<Longrightarrow> _ \<Longrightarrow> ?P e")
proof (induction e)
  case (PTuple xs)
  have h: "hashable (PTuple xs)" using PTuple.prems(1) by (rule well_formed_hashable)
  have "lookup_if_present (Some names) (PTuple xs) = Inr None"
    using nt h by (simp add: lookup_not_named name_table_not_node)
  then have enc: "to_tree (Some names) (PTuple xs) =
     (case sequence (map (to_tree (Some names)) xs) of Inl e \<Rightarrow> Inl e | Inr ts \<Rightarrow> Inr (PList ts))"
    by (rule to_tree_tuple)
  have "\<And>x. x \<in> set xs \<Longrightarrow> ?P x"
  proof -
    fix x assume x: "x \<in> set xs"
    show "?P x"
    proof (rule PTuple.IH [OF x])
      show "well_formed eng x" using PTuple.prems(1) x by (simp add: list_all_iff)
      show "\<forall>a \<in> snd ` set names. a \<notin> set (plain_scalars x)"
        using PTuple.prems(2) x by auto
      show "names = [] \<or> \<not> has_slice x"
        using PTuple.prems(3) x by (auto simp: list_ex_iff)
    qed
  qed
  from sequence_round_trip [of xs "to_tree (Some names)" "\<lambda>t. from_tree eng t (Some (inverted names))", OF this]
  obtain ts where "sequence (map (to_tree (Some names)) xs) = Inr ts"
    and "sequence (map (\<lambda>t. from_tree eng t (Some (inverted names))) ts) = Inr xs"
    by blast
  then show ?case by (simp add: enc from_tree_list)
next
  case (PHSlice a b c)
  from PHSlice.prems(3) have e: "names = []" by simp
  have "\<And>x. x \<in> set [a, b, c] \<Longrightarrow> ?P x"
  proof -
    fix x assume x: "x \<in> set [a, b, c]"
    from x PHSlice.prems(1) have 1: "well_formed eng x" by auto
    from e have 2: "\<forall>a \<in> snd ` set names. a \<notin> set (plain_scalars x)" by simp
    from e have 3: "names = [] \<or> \<not> has_slice x" by simp
    from x PHSlice.IH 1 2 3 show "?P x" by auto
  qed
  from sequence_round_trip [of "[a, b, c]" "to_tree (Some names)" "\<lambda>t. from_tree eng t (Some (inverted names))", OF this]
  obtain ts where ts: "sequence (map (to_tree (Some names)) [a, b, c]) = Inr ts"
    and dec: "sequence (map (\<lambda>t. from_tree eng t (Some (inverted names))) ts) = Inr [a, b, c]"
    by blast
  from ts e have "to_tree (Some names) (PHSlice a b c)
      = Inr (PDict [(''op'', PStr ''slice''), (''args'', PList ts)])"
    by (simp add: to_tree_hslice)
  moreover from dec have "from_tree eng (PDict [(''op'', PStr ''slice''), (''args'', PList ts)])
      (Some (inverted names)) = Inr (PHSlice a b c)"
    by (simp add: from_tree_wire_node hslice_call_def)
  ultimately show ?case by blast
next
  case (PExpr c args)
  have h: "hashable (PExpr c args)" using PExpr.prems(1) by (rule well_formed_hashable)
  from PExpr.prems(1) have tag: "cls_name c \<noteq> ''slice''"
    and res: "resolve_op eng (cls_name c) = Inr c"
    and con: "construct eng c args = Inr (PExpr c args)" by simp_all
  show ?case
  proof (cases "map_of names (PExpr c args)")
    case (Some a)
    from to_tree_named [OF nt Some h] from_tree_alias [OF nt Some] show ?thesis by blast
  next
    case None
    with nt h have "lookup_if_present (Some names) (PExpr c args) = Inr None"
      by (simp add: lookup_not_named)
    then have enc: "to_tree (Some names) (PExpr c args) =
       (case sequence (map (to_tree (Some names)) args) of
          Inl e \<Rightarrow> Inl e
        | Inr ts \<Rightarrow> Inr (PDict [(''op'', PStr (cls_name c)), (''args'', PList ts)]))"
      by (rule to_tree_node)
    show ?thesis
    proof (cases "is_symbol_like c")
      case True
      with PExpr.prems(1) have sc: "\<forall>x \<in> set args. is_scalar x" by (simp add: list_all_iff)
      then have "sequence (map (to_tree (Some names)) args) = Inr (map (\<lambda>x. x) args)"
        by (intro sequence_map_Inr) (simp add: to_tree_scalar [OF nt])
      then have 1: "to_tree (Some names) (PExpr c args)
          = Inr (PDict [(''op'', PStr (cls_name c)), (''args'', PList args)])"
        by (simp add: enc)
      from sc have "sequence (map (\<lambda>arg. from_tree eng arg None) args) = Inr (map (\<lambda>x. x) args)"
        by (intro sequence_map_Inr) (simp add: from_tree_scalar)
      with True tag res con
      have 2: "from_tree eng (PDict [(''op'', PStr (cls_name c)), (''args'', PList args)])
                 (Some (inverted names)) = Inr (PExpr c args)"
        by (simp add: from_tree_wire_node is_symbol_like_def)
      from 1 2 show ?thesis by blast
    next
      case False
      have "\<And>x. x \<in> set args \<Longrightarrow> ?P x"
      proof -
        fix x assume x: "x \<in> set args"
        show "?P x"
        proof (rule PExpr.IH [OF x])
          show "well_formed eng x" using PExpr.prems(1) False x by (simp add: list_all_iff)
          show "\<forall>a \<in> snd ` set names. a \<notin> set (plain_scalars x)"
            using PExpr.prems(2) False x by auto
          show "names = [] \<or> \<not> has_slice x"
            using PExpr.prems(3) x by (auto simp: list_ex_iff)
        qed
      qed
      from sequence_round_trip [of args "to_tree (Some names)" "\<lambda>t. from_tree eng t (Some (inverted names))", OF this]
      obtain ts where ts: "sequence (map (to_tree (Some names)) args) = Inr ts"
        and dec: "sequence (map (\<lambda>t. from_tree eng t (Some (inverted names))) ts) = Inr args"
        by blast
      from ts have 1: "to_tree (Some names) (PExpr c args)
          = Inr (PDict [(''op'', PStr (cls_name c)), (''args'', PList ts)])"
        by (simp add: enc)
      from False dec tag res con
      have 2: "from_tree eng (PDict [(''op'', PStr (cls_name c)), (''args'', PList ts)])
                 (Some (inverted names)) = Inr (PExpr c args)"
        by (simp add: from_tree_wire_node is_symbol_like_def)
      from 1 2 show ?thesis by blast
    qed
  qed
qed (simp_all add: round_trip_scalar [OF nt])


lemma to_tree_no_names: "to_tree None e = to_tree (Some []) e"
proof (induction e)
  case (PTuple xs)
  then have meq: "map (to_tree None) xs = map (to_tree (Some [])) xs" by simp
  show ?case by (simp add: to_tree.simps [of _ "PTuple xs"] lookup_if_present_def meq)
next
  case (PSlice a b c)
  then show ?case
    by (auto simp: to_tree.simps [of _ "PSlice a b c"] lookup_if_present_def split: sum.splits)
next
  case (PHSlice a b c)
  then show ?case
    by (auto simp: to_tree.simps [of _ "PHSlice a b c"] to_tree.simps [of _ "PSlice a b c"]
        lookup_if_present_def split: sum.splits)
next
  case (PExpr c args)
  then have meq: "map (to_tree None) args = map (to_tree (Some [])) args" by simp
  show ?case by (simp add: to_tree.simps [of _ "PExpr c args"] lookup_if_present_def meq)
next
  case (PISym n ds d)
  have "to_tree None (PBool False) = to_tree (Some []) (PBool False)"
    by (simp add: to_tree.simps lookup_if_present_def)
  with PISym show ?case
    by (auto simp: to_tree.simps [of _ "PISym n ds d"] symbol_def
        to_tree.simps [of _ "PExpr Symbol_class [n, ds, PBool False]"] lookup_if_present_def
        split: sum.splits)
qed (simp_all add: to_tree.simps lookup_if_present_def)

lemma from_tree_no_namespace: "from_tree eng t None = from_tree eng t (Some [])"
proof (induction t rule: measure_induct_rule [of size])
  case (less t)
  show ?case
  proof (cases t)
    case (PDict kvs)
    have m: "\<And>args xs. getitem kvs ''args'' = Inr args \<Longrightarrow> py_iter args = Inr xs \<Longrightarrow>
               map (\<lambda>arg. from_tree eng arg None) xs = map (\<lambda>arg. from_tree eng arg (Some [])) xs"
    proof -
      fix args xs
      assume a: "getitem kvs ''args'' = Inr args" "py_iter args = Inr xs"
      show "map (\<lambda>arg. from_tree eng arg None) xs = map (\<lambda>arg. from_tree eng arg (Some [])) xs"
      proof (rule map_cong [OF refl])
        fix x assume "x \<in> set xs"
        from arg_size [OF a this] PDict have "size x < size t" by simp
        then show "from_tree eng x None = from_tree eng x (Some [])" by (rule less.IH)
      qed
    qed
    show ?thesis
      unfolding PDict from_tree.simps [of _ "PDict kvs"]
      by (auto simp: m split: sum.splits pyval.splits)
  next
    case (PList xs)
    have meq: "map (\<lambda>arg. from_tree eng arg None) xs = map (\<lambda>arg. from_tree eng arg (Some [])) xs"
    proof (rule map_cong [OF refl])
      fix x assume "x \<in> set xs"
      then have "size x < size t" using PList by (simp add: less_Suc_eq_le size_list_estimation')
      then show "from_tree eng x None = from_tree eng x (Some [])" by (rule less.IH)
    qed
    show ?thesis by (simp add: PList from_tree.simps [of _ "PList xs"] meq)
  next
    case (PTuple xs)
    have meq: "map (\<lambda>arg. from_tree eng arg None) xs = map (\<lambda>arg. from_tree eng arg (Some [])) xs"
    proof (rule map_cong [OF refl])
      fix x assume "x \<in> set xs"
      then have "size x < size t" using PTuple by (simp add: less_Suc_eq_le size_list_estimation')
      then show "from_tree eng x None = from_tree eng x (Some [])" by (rule less.IH)
    qed
    show ?thesis by (simp add: PTuple from_tree.simps [of _ "PTuple xs"] meq)
  qed (simp_all add: from_tree.simps lookup_if_present_def)
qed


text \<open>
  Claim C1, as stated, fails when an alias of the name table also occurs in the
  expression as an ordinary string: with the table \<open>{t: 't'}\<close>, the field \<open>t.t\<close>
  (all of whose leaf symbols are keys of the table) is encoded as
  \<open>{'op': 'Field', 'args': ['t', 't']}\<close>, and decoding with the inverse table
  replaces both strings, giving \<open>Field(t, t)\<close>.
\<close>

theorem round_trip_alias_capture_counterexample:
  "well_formed example_engine
     (PExpr Field_class [symbol (PStr ''t'') example_dshape, PStr ''t''])
   \<and> name_table [(symbol (PStr ''t'') example_dshape, PStr ''t'')]
   \<and> to_tree (Some [(symbol (PStr ''t'') example_dshape, PStr ''t'')])
        (PExpr Field_class [symbol (PStr ''t'') example_dshape, PStr ''t''])
      = Inr (wire_node ''Field'' [PStr ''t'', PStr ''t''])
   \<and> from_tree example_engine (wire_node ''Field'' [PStr ''t'', PStr ''t''])
        (Some (inverted [(symbol (PStr ''t'') example_dshape, PStr ''t'')]))
      = Inr (PExpr Field_class
               [symbol (PStr ''t'') example_dshape, symbol (PStr ''t'') example_dshape])
   \<and> PExpr Field_class [symbol (PStr ''t'') example_dshape, symbol (PStr ''t'') example_dshape]
      \<noteq> PExpr Field_class [symbol (PStr ''t'') example_dshape, PStr ''t'']"
  by (simp add: name_table_def inverted_def symbol_def example_dshape_def wire_node_def
      example_engine_def resolve_op_def is_symbol_like_def Field_class_def Symbol_class_def
      to_tree.simps from_tree.simps lookup_if_present_def getitem_def py_iter_def)

text \<open>
  With a non-empty name table the encoder does not reach the encoding of a slice: the
  builtin \<open>slice\<close> that \<open>as_slice()\<close> returns is tested for membership in the
  table first, and hashing it raises \<open>TypeError\<close>.
\<close>

lemma to_tree_slice_with_names:
  "to_tree (Some [(symbol (PStr ''t'') example_dshape, PStr ''t'')])
     (PExpr Slice_class [symbol (PStr ''t'') example_dshape,
                         PTuple [PHSlice (PInt 1) (PInt 3) PNone]])
   = Inl (TypeError ''unhashable type'')"
  by (simp add: symbol_def example_dshape_def Slice_class_def Symbol_class_def
      to_tree.simps lookup_if_present_def)

text \<open>
  Claim C1, amended. Let \<open>e\<close> be a well-formed expression graph (scalars, tuples,
  slices and operation nodes; every node is rebuilt by its class from its arguments,
  its class is what its name resolves to, symbol-like nodes carry scalars only), and
  let \<open>names\<close> map expression nodes to pairwise distinct strings, none of which
  occurs in \<open>e\<close> as a scalar outside the symbol-like nodes. If \<open>names\<close> is empty or
  \<open>e\<close> contains no slice, then \<open>to_tree(e, names)\<close> returns a tree and
  \<open>from_tree\<close> of that tree with the inverse of \<open>names\<close> as namespace returns
  \<open>e\<close>. Without a name table and a namespace the round trip holds for every
  well-formed \<open>e\<close>, slices included.
\<close>

theorem round_trip:
  assumes "well_formed eng e" and "name_table names"
    and "list_all (\<lambda>a. a \<notin> set (plain_scalars e)) (map snd names)"
    and "names = [] \<or> \<not> has_slice e"
  shows "(\<exists>t. to_tree (Some names) e = Inr t
            \<and> from_tree eng t (Some (inverted names)) = Inr e)
       \<and> (\<exists>t. to_tree None e = Inr t \<and> from_tree eng t None = Inr e)"
proof
  from assms(3) have "\<forall>a \<in> snd ` set names. a \<notin> set (plain_scalars e)"
    by (auto simp: list_all_iff)
  with assms show "\<exists>t. to_tree (Some names) e = Inr t
            \<and> from_tree eng t (Some (inverted names)) = Inr e"
    by (intro round_trip_aux)
next
  have "name_table []" by (simp add: name_table_def)
  from round_trip_aux [OF this assms(1)]
  have "\<exists>t. to_tree (Some []) e = Inr t \<and> from_tree eng t (Some (inverted [])) = Inr e"
    by simp
  then show "\<exists>t. to_tree None e = Inr t \<and> from_tree eng t None = Inr e"
    by (simp add: to_tree_no_names from_tree_no_namespace inverted_def)
qed

theorem round_trip_witness:
  "(\<exists>t. to_tree (Some [(symbol (PStr ''t'') example_dshape, PStr ''t'')])
          (PExpr sum_class [PExpr Field_class [symbol (PStr ''t'') example_dshape, PStr ''x'']])
          = Inr t
        \<and> from_tree example_engine t
            (Some (inverted [(symbol (PStr ''t'') example_dshape, PStr ''t'')]))
          = Inr (PExpr sum_class
                   [PExpr Field_class [symbol (PStr ''t'') example_dshape, PStr ''x'']]))
   \<and> (\<exists>t. to_tree None
          (PExpr Slice_class [symbol (PStr ''t'') example_dshape,
                              PTuple [PHSlice (PInt 1) (PInt 3) PNone]]) = Inr t
        \<and> from_tree example_engine t None
          = Inr (PExpr Slice_class [symbol (PStr ''t'') example_dshape,
                                    PTuple [PHSlice (PInt 1) (PInt 3) PNone]]))"
proof -
  have wf1: "well_formed example_engine
      (PExpr sum_class [PExpr Field_class [symbol (PStr ''t'') example_dshape, PStr ''x'']])"
    and wf2: "well_formed example_engine
      (PExpr Slice_class [symbol (PStr ''t'') example_dshape,
                          PTuple [PHSlice (PInt 1) (PInt 3) PNone]])"
    by (simp_all add: symbol_def example_dshape_def example_engine_def resolve_op_def
        is_symbol_like_def Field_class_def Symbol_class_def sum_class_def Slice_class_def)
  have nt: "name_table [(symbol (PStr ''t'') example_dshape, PStr ''t'')]"
    by (simp add: name_table_def symbol_def)
  have fresh: "list_all (\<lambda>a. a \<notin> set (plain_scalars
      (PExpr sum_class [PExpr Field_class [symbol (PStr ''t'') example_dshape, PStr ''x'']])))
      (map snd [(symbol (PStr ''t'') example_dshape, PStr ''t'')])"
    by (simp add: symbol_def is_symbol_like_def Field_class_def Symbol_class_def sum_class_def)
  have noslice: "[(symbol (PStr ''t'') example_dshape, PStr ''t'')] = []
      \<or> \<not> has_slice
        (PExpr sum_class [PExpr Field_class [symbol (PStr ''t'') example_dshape, PStr ''x'']])"
    by (simp add: symbol_def example_dshape_def)
  have e: "list_all (\<lambda>a. a \<notin> set (plain_scalars
      (PExpr Slice_class [symbol (PStr ''t'') example_dshape,
                          PTuple [PHSlice (PInt 1) (PInt 3) PNone]]))) (map snd [])"
    "[] = [] \<or> \<not> has_slice (PExpr Slice_class [symbol (PStr ''t'') example_dshape,
                          PTuple [PHSlice (PInt 1) (PInt 3) PNone]])"
    "name_table []"
    by (simp_all add: name_table_def)
  from round_trip [OF wf1 nt fresh noslice] round_trip [OF wf2 e(3) e(1) e(2)]
  show ?thesis by blast
qed

section \<open>Content negotiation\<close>

lemma bytes_repr_plain:
  assumes "list_all plain_byte s"
  shows "bytes_repr s = CHR ''b'' # CHR 0x27 # s @ [CHR 0x27]"
proof -
  from assms have q: "bytes_quote s = CHR 0x27"
    by (auto simp: bytes_quote_def list_all_iff plain_byte_def)
  have "\<And>c. plain_byte c \<Longrightarrow> escape_byte (CHR 0x27) c = [c]"
    by (auto simp: escape_byte_def plain_byte_def)
  with assms have "concat (map (escape_byte (CHR 0x27)) s) = s"
    by (induction s) auto
  with q show ?thesis by (simp add: bytes_repr_def)
qed

text \<open>
  Claim C6 says that a request whose content-type header is missing is answered with
  415. The handler reads the header with a subscript, so for a request without the
  header the lookup raises \<open>KeyError\<close>: neither \<open>check_request\<close> nor the route
  around it builds a response, whereas the sibling branch for a header that does not
  match answers 415.
\<close>

theorem check_request_missing_header:
  "check_request example_env (compserver example_env)
     \<lparr>req_headers = [], req_authorization = None, req_data = ''{}''\<rparr> example_server
     = (Inl (KeyError ''content-type''), example_server)
   \<and> compute_route example_env
     \<lparr>req_headers = [], req_authorization = None, req_data = ''{}''\<rparr> example_server
     = (Inl (KeyError ''content-type''), example_server)
   \<and> add_route example_env
     \<lparr>req_headers = [], req_authorization = None, req_data = ''{}''\<rparr> example_server
     = (Inl (KeyError ''content-type''), example_server)"
  by (simp add: compute_route_def add_route_def authorization_def check_request_def
      header_getitem_def example_server_def)

text \<open>
  The rest of the claim holds. For every request that has a content-type header: if
  the header's value is empty or does not match the vendor media-type pattern, the
  handler returns 415; if the pattern matches but the named format is not registered,
  it returns 415; if the format is registered but decoding the body raises a
  \<open>ValueError\<close>, it returns 400 and the response text is \<open>Bad data.  Got\<close>
  followed by the bytes literal of the body, which shows a body of plain printable
  characters as it is.
\<close>

lemma check_request_negotiation:
  assumes "map_of (req_headers req) ''content-type'' = Some ct"
  shows "(ct = [] \<longrightarrow>
            check_request env f req srv
              = (Inr (reply ''Unsupported serialization format '' 415), srv))
       \<and> (mimetype_match (all_formats env) ct = None \<longrightarrow>
            check_request env f req srv
              = (Inr (reply (''Unsupported serialization format '' @ ct) 415), srv))
       \<and> (\<forall>n. mimetype_match (all_formats env) ct = Some n \<and> map_of (srv_formats srv) n = None \<longrightarrow>
            check_request env f req srv
              = (Inr (reply (''Unsupported serialization format '' @ [CHR 0x27] @ n @ [CHR 0x27])
                       415), srv))
       \<and> (\<forall>n serial e. mimetype_match (all_formats env) ct = Some n
              \<and> map_of (srv_formats srv) n = Some serial
              \<and> loads serial (req_data req) = Inl e \<and> isinstance_exc e ''ValueError'' \<longrightarrow>
            check_request env f req srv
              = (Inr (reply (''Bad data.  Got '' @ bytes_repr (req_data req) @ '' '') 400), srv)
            \<and> (list_all plain_byte (req_data req) \<longrightarrow>
                 resp_body (reply (''Bad data.  Got '' @ bytes_repr (req_data req) @ '' '') 400)
                   = ''Bad data.  Got b'' @ [CHR 0x27] @ req_data req @ [CHR 0x27] @ '' ''))"
proof -
  have "mimetype_match (all_formats env) [] = None"
    by (simp add: mimetype_match_def find_None_iff)
  with assms show ?thesis
    by (auto simp: check_request_def header_getitem_def bytes_repr_plain reply_def)
qed

lemma check_request_negotiation_example:
  "check_request example_env (compserver example_env)
     \<lparr>req_headers = [(''content-type'', ''text/plain'')], req_authorization = None,
      req_data = ''{}''\<rparr> example_server
     = (Inr (reply ''Unsupported serialization format text/plain'' 415), example_server)
   \<and> check_request example_env (compserver example_env)
     \<lparr>req_headers = [(''content-type'', ''application/vnd.blaze+pickle'')],
      req_authorization = None, req_data = ''{}''\<rparr> example_server
     = (Inr (reply (''Unsupported serialization format '' @ [CHR 0x27] @ ''pickle'' @ [CHR 0x27])
              415), example_server)
   \<and> check_request example_env (compserver example_env)
     \<lparr>req_headers = [(''content-type'', ''application/vnd.blaze+json'')],
      req_authorization = None, req_data = ''{expr''\<rparr> example_server
     = (Inr (reply (''Bad data.  Got b'' @ [CHR 0x27] @ ''{expr'' @ [CHR 0x27] @ '' '') 400),
        example_server)"
  using check_request_negotiation [of
      "\<lparr>req_headers = [(''content-type'', ''text/plain'')], req_authorization = None,
        req_data = ''{}''\<rparr>" "''text/plain''" example_env "compserver example_env" example_server]
    check_request_negotiation [of
      "\<lparr>req_headers = [(''content-type'', ''application/vnd.blaze+pickle'')],
        req_authorization = None, req_data = ''{}''\<rparr>" "''application/vnd.blaze+pickle''"
      example_env "compserver example_env" example_server]
    check_request_negotiation [of
      "\<lparr>req_headers = [(''content-type'', ''application/vnd.blaze+json'')],
        req_authorization = None, req_data = ''{expr''\<rparr>" "''application/vnd.blaze+json''"
      example_env "compserver example_env" example_server]
  by (simp add: mimetype_match_def example_env_def example_server_def example_format_def
      isinstance_exc_def ValueError_def bytes_repr_def bytes_quote_def escape_byte_def)

section \<open>Profiling gates of \<open>compserver\<close>\<close>

text \<open>
  The two tests of the handler. For every \<open>/compute\<close> request whose payload is a
  mapping: if \<open>profile\<close> is true in the payload while the server disallows
  profiling, the handler returns 403; and if profiling is in effect for the request,
  the server's profiler output is \<open>':response'\<close> and the requested output is not
  \<open>':response'\<close>, the handler returns 403.
\<close>

lemma profiling_gates:
  "(truthy (dict_get kvs ''profile'' PNone) \<and> \<not> allow_profiler srv \<longrightarrow>
      compserver env (PDict kvs) serial srv
        = (Inr (reply ''profiling is disabled on this server'' 403), srv))
   \<and> (profiling_on srv (dict_get kvs ''profile'' PNone)
          (dict_get kvs ''profiler_output'' (profiler_output srv))
       \<and> profiler_output srv = PStr '':response''
       \<and> dict_get kvs ''profiler_output'' (profiler_output srv) \<noteq> PStr '':response'' \<longrightarrow>
      compserver env (PDict kvs) serial srv
        = (Inr (reply (''local filepaths are disabled on this server, only ''
                       @ [CHR 0x27] @ '':response'' @ [CHR 0x27] @ '' is allowed for the ''
                       @ [CHR 0x27] @ ''profiler_output'' @ [CHR 0x27] @ '' field'') 403), srv))"
  by (auto simp: compserver_def compserver_result_def Let_def profiling_on_def)

lemma profiling_gates_example:
  "compserver example_env (PDict [(''expr'', PStr '':leaf''), (''profile'', PBool True)])
     example_format example_server
     = (Inr (reply ''profiling is disabled on this server'' 403), example_server)
   \<and> resp_status (projr (fst (compserver example_env
        (PDict [(''expr'', PStr '':leaf''), (''profile'', PBool True),
                (''profiler_output'', PStr ''/tmp/prof'')])
        example_format response_only_server))) = 403"
  using profiling_gates [of "[(''expr'', PStr '':leaf''), (''profile'', PBool True)]"
      example_server example_env example_format]
    profiling_gates [of "[(''expr'', PStr '':leaf''), (''profile'', PBool True),
                (''profiler_output'', PStr ''/tmp/prof'')]"
      response_only_server example_env example_format]
  by (simp add: dict_get_def example_server_def response_only_server_def profiling_on_def
      reply_def)

text \<open>
  Claim C7 says that on a server whose profiler output is \<open>':response'\<close> every
  request that asks for another profiler output is answered with 403, and so does the
  documentation of \<open>Server\<close>: only requests that specify \<open>':response'\<close> are
  served, all others return a 403. The handler tests the requested output only when
  the request is profiled. On a server registered with \<open>allow_profiler=True\<close>,
  \<open>profiler_output=':response'\<close> and \<open>profile_by_default=False\<close>, a request that
  names the output \<open>/tmp/prof\<close> and does not set \<open>profile\<close> is computed and
  answered with status 200.
\<close>

theorem response_only_server_serves_file_sink_request:
  "register_profiler_info example_env True (PStr '':response'') False
     = Inr (allow_profiler response_only_server, profiler_output response_only_server,
            profile_by_default response_only_server)
   \<and> profiler_output response_only_server = PStr '':response''
   \<and> dict_get [(''expr'', PStr '':leaf''), (''profiler_output'', PStr ''/tmp/prof'')]
         ''profiler_output'' (profiler_output response_only_server) = PStr ''/tmp/prof''
   \<and> compserver example_env
        (PDict [(''expr'', PStr '':leaf''), (''profiler_output'', PStr ''/tmp/prof'')])
        example_format response_only_server
      = (Inr (reply ''response'' 200), response_only_server)"
  by (simp add: register_profiler_info_def response_only_server_def example_server_def
      compserver_def compserver_result_def dict_get_def profiling_on_def leaf_namespace_def
      decode_payload_def
      setitem_def example_env_def getitem_def from_tree.simps as_namespace_def
      lookup_if_present_def symbol_def serve_expr_def example_leaves_def Symbol_class_def
      execute_def example_format_def finish_def or_empty_def)

section \<open>The leaf alias\<close>

lemma leaf_namespace_binding:
  assumes "discover env (srv_data srv) = Inr ds"
    and "dict_get kvs ''namespace'' (PDict []) = PDict client_ns"
  shows "decode_payload env srv kvs
           = (case getitem kvs ''expr'' of
                Inl e \<Rightarrow> Inl e
              | Inr tree \<Rightarrow>
                  from_tree (env_engine env) tree
                    (as_namespace
                       (PDict (dict_set client_ns '':leaf'' (symbol (PStr ''leaf'') ds)))))"
  using assms by (simp add: decode_payload_def leaf_namespace_def setitem_def)

lemma leaf_alias_decodes_to_binding:
  "from_tree eng (PStr '':leaf'') (as_namespace (PDict (dict_set client_ns '':leaf'' v))) = Inr v"
  by (simp add: from_tree.simps as_namespace_def lookup_if_present_def dict_set_nonempty
      map_of_as_namespace map_of_dict_set)

lemma decode_payload_bad_namespace:
  assumes "discover env (srv_data srv) = Inr ds"
    and "\<forall>client_ns. dict_get kvs ''namespace'' (PDict []) \<noteq> PDict client_ns"
  shows "decode_payload env srv kvs = Inl (TypeError ''object does not support item assignment'')"
  using assms
  by (cases "dict_get kvs ''namespace'' (PDict [])")
     (simp_all add: decode_payload_def leaf_namespace_def setitem_def)

lemma decode_payload_no_shape:
  assumes "discover env (srv_data srv) = Inl e"
  shows "decode_payload env srv kvs = Inl e"
  using assms by (simp add: decode_payload_def leaf_namespace_def)

text \<open>
  Claim C10. For every \<open>/compute\<close> request that the profiling tests let through, the
  handler \<open>compserver\<close> decodes the payload's expression with the payload's namespace
  in which the key \<open>':leaf'\<close> has been assigned the symbol named \<open>leaf\<close> whose type
  is the discovered shape of the hosted data: an entry \<open>':leaf'\<close> supplied by the
  client is overwritten and the other entries are kept, the alias \<open>':leaf'\<close> decodes
  to the server's symbol, and the response is the one computed from the expression
  decoded with that namespace. When the payload's namespace is not a mapping the
  assignment raises, and when the shape cannot be discovered that failure is raised;
  in both cases the exception leaves the handler and nothing is decoded.
\<close>

theorem leaf_alias_is_bound_by_the_server:
  assumes "passes_profiling_gates srv kvs"
  shows "(\<forall>ds client_ns.
            discover env (srv_data srv) = Inr ds
            \<and> dict_get kvs ''namespace'' (PDict []) = PDict client_ns \<longrightarrow>
            map_of (dict_set client_ns '':leaf'' (symbol (PStr ''leaf'') ds)) '':leaf''
              = Some (symbol (PStr ''leaf'') ds)
            \<and> (\<forall>k. k \<noteq> '':leaf'' \<longrightarrow>
                  map_of (dict_set client_ns '':leaf'' (symbol (PStr ''leaf'') ds)) k
                    = map_of client_ns k)
            \<and> from_tree (env_engine env) (PStr '':leaf'')
                  (as_namespace (PDict (dict_set client_ns '':leaf'' (symbol (PStr ''leaf'') ds))))
                = Inr (symbol (PStr ''leaf'') ds)
            \<and> compserver env (PDict kvs) serial srv
                = ((case getitem kvs ''expr'' of
                      Inl e \<Rightarrow> Inl e
                    | Inr tree \<Rightarrow>
                        (case from_tree (env_engine env) tree
                                (as_namespace
                                   (PDict (dict_set client_ns '':leaf''
                                             (symbol (PStr ''leaf'') ds)))) of
                           Inl e \<Rightarrow> Inl e
                         | Inr expr \<Rightarrow>
                             serve_expr env serial srv kvs
                               (profiling_on srv (dict_get kvs ''profile'' PNone)
                                  (dict_get kvs ''profiler_output'' (profiler_output srv)))
                               (dict_get kvs ''profiler_output'' (profiler_output srv)) expr)),
                   srv))
       \<and> (\<forall>ds. discover env (srv_data srv) = Inr ds
              \<and> (\<forall>client_ns. dict_get kvs ''namespace'' (PDict []) \<noteq> PDict client_ns) \<longrightarrow>
            compserver env (PDict kvs) serial srv
              = (Inl (TypeError ''object does not support item assignment''), srv))
       \<and> (\<forall>e. discover env (srv_data srv) = Inl e \<longrightarrow>
            compserver env (PDict kvs) serial srv = (Inl e, srv))"
proof (intro conjI allI impI)
  fix ds client_ns
  assume a: "discover env (srv_data srv) = Inr ds
            \<and> dict_get kvs ''namespace'' (PDict []) = PDict client_ns"
  show "map_of (dict_set client_ns '':leaf'' (symbol (PStr ''leaf'') ds)) '':leaf''
              = Some (symbol (PStr ''leaf'') ds)"
    by (simp add: map_of_dict_set)
  show "from_tree (env_engine env) (PStr '':leaf'')
                  (as_namespace (PDict (dict_set client_ns '':leaf'' (symbol (PStr ''leaf'') ds))))
                = Inr (symbol (PStr ''leaf'') ds)"
    by (rule leaf_alias_decodes_to_binding)
  from a have d: "decode_payload env srv kvs
           = (case getitem kvs ''expr'' of
                Inl e \<Rightarrow> Inl e
              | Inr tree \<Rightarrow>
                  from_tree (env_engine env) tree
                    (as_namespace
                       (PDict (dict_set client_ns '':leaf'' (symbol (PStr ''leaf'') ds)))))"
    by (intro leaf_namespace_binding) simp_all
  show "compserver env (PDict kvs) serial srv
                = ((case getitem kvs ''expr'' of
                      Inl e \<Rightarrow> Inl e
                    | Inr tree \<Rightarrow>
                        (case from_tree (env_engine env) tree
                                (as_namespace
                                   (PDict (dict_set client_ns '':leaf''
                                             (symbol (PStr ''leaf'') ds)))) of
                           Inl e \<Rightarrow> Inl e
                         | Inr expr \<Rightarrow>
                             serve_expr env serial srv kvs
                               (profiling_on srv (dict_get kvs ''profile'' PNone)
                                  (dict_get kvs ''profiler_output'' (profiler_output srv)))
                               (dict_get kvs ''profiler_output'' (profiler_output srv)) expr)),
                   srv)"
    by (simp add: compserver_after_gates [OF assms] d split: sum.splits)
next
  fix ds client_ns k
  assume "k \<noteq> '':leaf''"
  then show "map_of (dict_set client_ns '':leaf'' (symbol (PStr ''leaf'') ds)) k
                    = map_of client_ns k"
    by (simp add: map_of_dict_set)
next
  fix ds
  assume "discover env (srv_data srv) = Inr ds
              \<and> (\<forall>client_ns. dict_get kvs ''namespace'' (PDict []) \<noteq> PDict client_ns)"
  then have "decode_payload env srv kvs
               = Inl (TypeError ''object does not support item assignment'')"
    by (intro decode_payload_bad_namespace) simp_all
  then show "compserver env (PDict kvs) serial srv
              = (Inl (TypeError ''object does not support item assignment''), srv)"
    by (simp add: compserver_after_gates [OF assms])
next
  fix e
  assume "discover env (srv_data srv) = Inl e"
  then have "decode_payload env srv kvs = Inl e"
    by (rule decode_payload_no_shape)
  then show "compserver env (PDict kvs) serial srv = (Inl e, srv)"
    by (simp add: compserver_after_gates [OF assms])
qed

theorem leaf_alias_is_bound_by_the_server_witness:
  "passes_profiling_gates example_server
     [(''expr'', PStr '':leaf''), (''namespace'', PDict [('':leaf'', PStr ''secret'')])]
   \<and> discover example_env (srv_data example_server)
       = Inr (PObj ''var * {id: int32, name: string, amount: int32}'')
   \<and> from_tree (env_engine example_env) (PStr '':leaf'')
       (as_namespace (PDict (dict_set [('':leaf'', PStr ''secret'')] '':leaf''
          (symbol (PStr ''leaf'') (PObj ''var * {id: int32, name: string, amount: int32}'')))))
       = Inr (symbol (PStr ''leaf'') (PObj ''var * {id: int32, name: string, amount: int32}''))
   \<and> compserver example_env
       (PDict [(''expr'', PStr '':leaf''), (''namespace'', PDict [('':leaf'', PStr ''secret'')])])
       example_format example_server
       = (Inr (reply ''response'' 200), example_server)"
proof -
  have 1: "passes_profiling_gates example_server
     [(''expr'', PStr '':leaf''), (''namespace'', PDict [('':leaf'', PStr ''secret'')])]"
    by (simp add: passes_profiling_gates_def dict_get_def example_server_def profiling_on_def)
  have 2: "discover example_env (srv_data example_server)
             = Inr (PObj ''var * {id: int32, name: string, amount: int32}'')"
    by (simp add: example_env_def)
  have 3: "dict_get [(''expr'', PStr '':leaf''), (''namespace'', PDict [('':leaf'', PStr ''secret'')])]
             ''namespace'' (PDict []) = PDict [('':leaf'', PStr ''secret'')]"
    by (simp add: dict_get_def)
  have 4: "getitem [(''expr'', PStr '':leaf''), (''namespace'', PDict [('':leaf'', PStr ''secret'')])]
             ''expr'' = Inr (PStr '':leaf'')"
    by (simp add: getitem_def)
  have 5: "serve_expr example_env example_format example_server
             [(''expr'', PStr '':leaf''), (''namespace'', PDict [('':leaf'', PStr ''secret'')])]
             False PNone
             (symbol (PStr ''leaf'') (PObj ''var * {id: int32, name: string, amount: int32}''))
           = Inr (reply ''response'' 200)"
    by (simp add: serve_expr_def example_env_def example_leaves_def symbol_def Symbol_class_def
        execute_def example_format_def finish_def or_empty_def dict_get_def example_server_def)
  show ?thesis
    using leaf_alias_is_bound_by_the_server [OF 1, of example_env example_format] 1 2 3 4 5
    by (simp add: dict_get_def example_server_def profiling_on_def)
qed

section \<open>Failures inside \<open>compserver\<close>\<close>

text \<open>
  Claim C4, as stated, fails: for a request whose decoded expression has two leaves
  the handler builds no response at all; the \<open>assert\<close> on the number of leaves
  raises \<open>AssertionError\<close>, which leaves the handler.
\<close>

theorem several_leaves_counterexample:
  "passes_profiling_gates example_server
     [(''expr'', wire_node ''Join''
        [wire_node ''Symbol'' [PStr ''a'', PStr ''int32'', PBool False],
         wire_node ''Symbol'' [PStr ''b'', PStr ''int32'', PBool False]])]
   \<and> decode_payload example_env example_server
     [(''expr'', wire_node ''Join''
        [wire_node ''Symbol'' [PStr ''a'', PStr ''int32'', PBool False],
         wire_node ''Symbol'' [PStr ''b'', PStr ''int32'', PBool False]])]
     = Inr (PExpr Join_class [symbol (PStr ''a'') (PStr ''int32''),
                              symbol (PStr ''b'') (PStr ''int32'')])
   \<and> leaves_of example_env (PExpr Join_class [symbol (PStr ''a'') (PStr ''int32''),
                              symbol (PStr ''b'') (PStr ''int32'')])
     = Inr [symbol (PStr ''a'') (PStr ''int32''), symbol (PStr ''b'') (PStr ''int32'')]
   \<and> compserver example_env
     (PDict [(''expr'', wire_node ''Join''
        [wire_node ''Symbol'' [PStr ''a'', PStr ''int32'', PBool False],
         wire_node ''Symbol'' [PStr ''b'', PStr ''int32'', PBool False]])])
     example_format example_server
     = (Inl (AssertionError []), example_server)"
  by (simp add: passes_profiling_gates_def dict_get_def example_server_def
      compserver_def compserver_result_def profiling_on_def leaf_namespace_def
      decode_payload_def wire_node_def
      setitem_def example_env_def getitem_def from_tree.simps as_namespace_def
      lookup_if_present_def symbol_def serve_expr_def example_leaves_def Symbol_class_def
      Join_class_def py_iter_def resolve_op_def example_engine_def)

text \<open>
  Claim C4, amended. For every \<open>/compute\<close> request that passes the profiling gates:
  if the decoded expression does not have exactly one leaf, the handler's assertion
  fails and the \<open>AssertionError\<close> leaves the handler, no 4xx response being built;
  a failure of the decoding step (the namespace, the \<open>expr\<close> key, the decoder) or
  of reading the leaves leaves the handler in the same way.
\<close>

theorem failures_before_execution_propagate:
  assumes "passes_profiling_gates srv kvs"
  shows "(\<forall>e. decode_payload env srv kvs = Inl e \<longrightarrow>
            compserver env (PDict kvs) serial srv = (Inl e, srv))
       \<and> (\<forall>expr e. decode_payload env srv kvs = Inr expr \<and> leaves_of env expr = Inl e \<longrightarrow>
            compserver env (PDict kvs) serial srv = (Inl e, srv))
       \<and> (\<forall>expr leaves. decode_payload env srv kvs = Inr expr
              \<and> leaves_of env expr = Inr leaves \<and> length leaves \<noteq> 1 \<longrightarrow>
            compserver env (PDict kvs) serial srv = (Inl (AssertionError []), srv))"
proof (intro conjI allI impI)
  fix e assume "decode_payload env srv kvs = Inl e"
  then show "compserver env (PDict kvs) serial srv = (Inl e, srv)"
    by (simp add: compserver_after_gates [OF assms])
next
  fix expr e assume "decode_payload env srv kvs = Inr expr \<and> leaves_of env expr = Inl e"
  then show "compserver env (PDict kvs) serial srv = (Inl e, srv)"
    by (simp add: compserver_after_gates [OF assms] serve_expr_def)
next
  fix expr leaves
  assume a: "decode_payload env srv kvs = Inr expr
              \<and> leaves_of env expr = Inr leaves \<and> length leaves \<noteq> 1"
  then have "case leaves of [leaf] \<Rightarrow> False | _ \<Rightarrow> True"
    by (auto split: list.splits)
  with a show "compserver env (PDict kvs) serial srv = (Inl (AssertionError []), srv)"
    by (auto simp: compserver_after_gates [OF assms] serve_expr_def split: list.splits)
qed

theorem failures_before_execution_propagate_witness:
  "compserver example_env
     (PDict [(''expr'', wire_node ''Join''
        [wire_node ''Symbol'' [PStr ''a'', PStr ''int32'', PBool False],
         wire_node ''Symbol'' [PStr ''b'', PStr ''int32'', PBool False]])])
     example_format example_server
     = (Inl (AssertionError []), example_server)
   \<and> compserver example_env (PDict [(''expr'', wire_node ''NotARealOp'' [])])
     example_format example_server
     = (Inl (ValueError ''NotARealOp not found in compute_up''), example_server)"
proof -
  let ?two = "[(''expr'', wire_node ''Join''
        [wire_node ''Symbol'' [PStr ''a'', PStr ''int32'', PBool False],
         wire_node ''Symbol'' [PStr ''b'', PStr ''int32'', PBool False]])]"
  let ?bad = "[(''expr'', wire_node ''NotARealOp'' [])]"
  have g: "passes_profiling_gates example_server ?two" "passes_profiling_gates example_server ?bad"
    by (simp_all add: passes_profiling_gates_def dict_get_def example_server_def)
  have d: "decode_payload example_env example_server ?two
     = Inr (PExpr Join_class [symbol (PStr ''a'') (PStr ''int32''),
                              symbol (PStr ''b'') (PStr ''int32'')])"
    "decode_payload example_env example_server ?bad
     = Inl (ValueError ''NotARealOp not found in compute_up'')"
    by (simp_all add: dict_get_def example_server_def leaf_namespace_def
      decode_payload_def wire_node_def expression_from_name_def
      setitem_def example_env_def getitem_def from_tree.simps as_namespace_def
      lookup_if_present_def symbol_def Symbol_class_def Like_class_def Field_class_def
      Join_class_def py_iter_def resolve_op_def example_engine_def)
  have l: "leaves_of example_env (PExpr Join_class [symbol (PStr ''a'') (PStr ''int32''),
                              symbol (PStr ''b'') (PStr ''int32'')])
     = Inr [symbol (PStr ''a'') (PStr ''int32''), symbol (PStr ''b'') (PStr ''int32'')]"
    by (simp add: example_env_def example_leaves_def symbol_def Symbol_class_def Join_class_def)
  show ?thesis
    using failures_before_execution_propagate [OF g(1), of example_env example_format]
      failures_before_execution_propagate [OF g(2), of example_env example_format] d l
    by simp
qed

text \<open>
  Claim C5. For every \<open>/compute\<close> request that reaches the execution step (the
  gates passed, the expression decoded, exactly one leaf): a failure of that step
  that is an instance of \<open>NotImplementedError\<close> gives status 501 with the failure's
  message after a fixed prefix, and any other failure (an instance of \<open>Exception\<close>)
  gives status 500 whose body is a fixed prefix, the name of the failure's type and
  its message, and nothing else (no stack trace).
\<close>

theorem execution_failures_classified:
  assumes "passes_profiling_gates srv kvs"
    and "decode_payload env srv kvs = Inr expr"
    and "leaves_of env expr = Inr [leaf]"
    and "execute env serial expr leaf (srv_data srv)
           (or_empty (dict_get kvs ''compute_kwargs'' PNone))
           (or_empty (dict_get kvs ''odo_kwargs'' PNone)) = Inl e"
  shows "(isinstance_exc e ''NotImplementedError'' \<longrightarrow>
            compserver env (PDict kvs) serial srv
              = (Inr (reply (''Computation not supported:'' @ [CHR 0x0A] @ exc_str e) 501), srv))
       \<and> (\<not> isinstance_exc e ''NotImplementedError'' \<and> isinstance_exc e ''Exception'' \<longrightarrow>
            compserver env (PDict kvs) serial srv
              = (Inr (reply (''Computation failed with message:'' @ [CHR 0x0A]
                             @ exc_type e @ '': '' @ exc_str e) 500), srv))"
  using assms(2-4) by (simp add: compserver_after_gates [OF assms(1)] serve_expr_def)


theorem execution_failures_classified_witness:
  "compserver unsupported_env
     (PDict [(''expr'', wire_node ''sum'' [wire_node ''Field'' [PStr '':leaf'', PStr ''amount'']])])
     example_format example_server
     = (Inr (reply (''Computation not supported:'' @ [CHR 0x0A]
                    @ ''Could not find signature for compute_up: <sum, list>'') 501),
        example_server)
   \<and> compserver failing_env
     (PDict [(''expr'', wire_node ''sum'' [wire_node ''Field'' [PStr '':leaf'', PStr ''amount'']])])
     example_format example_server
     = (Inr (reply (''Computation failed with message:'' @ [CHR 0x0A]
                    @ ''ZeroDivisionError: division by zero'') 500),
        example_server)"
proof -
  let ?kvs = "[(''expr'', wire_node ''sum'' [wire_node ''Field'' [PStr '':leaf'', PStr ''amount'']])]"
  let ?leaf = "symbol (PStr ''leaf'') (PObj ''var * {id: int32, name: string, amount: int32}'')"
  let ?expr = "PExpr sum_class [PExpr Field_class [?leaf, PStr ''amount'']]"
  have g: "passes_profiling_gates example_server ?kvs"
    by (simp add: passes_profiling_gates_def dict_get_def example_server_def)
  have d: "decode_payload unsupported_env example_server ?kvs = Inr ?expr"
    "decode_payload failing_env example_server ?kvs = Inr ?expr"
    by (simp_all add: dict_get_def example_server_def leaf_namespace_def
      decode_payload_def wire_node_def unsupported_env_def failing_env_def
      setitem_def example_env_def getitem_def from_tree.simps as_namespace_def
      lookup_if_present_def symbol_def Symbol_class_def sum_class_def Field_class_def
      py_iter_def resolve_op_def example_engine_def)
  have l: "leaves_of unsupported_env ?expr = Inr [?leaf]" "leaves_of failing_env ?expr = Inr [?leaf]"
    by (simp_all add: unsupported_env_def failing_env_def example_env_def example_leaves_def
        symbol_def Symbol_class_def sum_class_def Field_class_def)
  have x: "execute unsupported_env example_format ?expr ?leaf (srv_data example_server)
           (or_empty (dict_get ?kvs ''compute_kwargs'' PNone))
           (or_empty (dict_get ?kvs ''odo_kwargs'' PNone))
      = Inl (PyExc ''NotImplementedError'' [''RuntimeError'', ''Exception'', ''BaseException'']
               ''Could not find signature for compute_up: <sum, list>'')"
    "execute failing_env example_format ?expr ?leaf (srv_data example_server)
           (or_empty (dict_get ?kvs ''compute_kwargs'' PNone))
           (or_empty (dict_get ?kvs ''odo_kwargs'' PNone))
      = Inl (PyExc ''ZeroDivisionError'' [''ArithmeticError'', ''Exception'', ''BaseException'']
               ''division by zero'')"
    by (simp_all add: execute_def unsupported_env_def failing_env_def example_env_def)
  show ?thesis
    using execution_failures_classified [OF g d(1) l(1) x(1)]
      execution_failures_classified [OF g d(2) l(2) x(2)]
    by (simp add: isinstance_exc_def)
qed

section \<open>The update endpoint\<close>

lemma valmap_keys: "valmap f kvs = Inr r \<Longrightarrow> map fst r = map fst kvs"
  by (induction f kvs arbitrary: r rule: valmap.induct) (auto split: sum.splits)

lemma valmap_map_of:
  "valmap f kvs = Inr r \<Longrightarrow> map_of kvs k = Some v \<Longrightarrow> \<exists>w. f v = Inr w \<and> map_of r k = Some w"
  by (induction f kvs arbitrary: r rule: valmap.induct) (auto split: sum.splits if_splits)

lemma valmap_all_resolve:
  "(\<And>k v. (k, v) \<in> set kvs \<Longrightarrow> \<exists>w. f v = Inr w) \<Longrightarrow> \<exists>r. valmap f kvs = Inr r"
proof (induction f kvs rule: valmap.induct)
  case (1 f)
  then show ?case by simp
next
  case (2 f k v kvs)
  from "2.prems" obtain w where w: "f v = Inr w" by fastforce
  from "2.IH" [OF w] "2.prems" obtain r where "valmap f kvs = Inr r" by auto
  with w show ?case by simp
qed

text \<open>
  Claim C8, as stated, fails in its last part: a request whose payload is a mapping,
  against a mutable registry, is not always merged and acknowledged. When the
  resolution of an entry raises, the exception leaves the handler, no \<open>'OK'\<close> is
  returned and the registry is as before.
\<close>

theorem addserver_unresolvable_entry_counterexample:
  "srv_data example_server = PDict [(''accounts'', PObj ''accounts.csv'')]
   \<and> addserver example_env (PDict [(''x'', PInt 5)]) example_format example_server
      = (Inl (PyExc ''NotImplementedError'' [''RuntimeError'', ''Exception'', ''BaseException'']
               ''Unable to parse uri to data resource''), example_server)
   \<and> fst (addserver example_env (PDict [(''x'', PInt 5)]) example_format example_server)
      \<noteq> Inr (reply ''OK'' 200)"
  by (simp add: example_server_def example_env_def example_resource_def addserver_def)

text \<open>
  Claim C8, amended. For every \<open>/add\<close> request: if the server's data is not a mutable
  mapping the handler returns 422; if the payload is not a mapping the handler
  returns 422; otherwise, provided that the resolution of every payload entry
  succeeds, the registry afterwards binds every payload name to its resolved resource
  (whatever it bound before) and every other name as before, and the handler returns
  'OK'.
\<close>

theorem addserver_contract:
  "((\<forall>registry. srv_data srv \<noteq> PDict registry) \<longrightarrow>
      addserver env payload serial srv
        = (Inr (reply (''Cannot update blaze server data since its current data is a ''
                 @ type_repr env (srv_data srv)
                 @ '' and not a mutable mapping (dictionary like).'') 422), srv))
   \<and> ((\<exists>registry. srv_data srv = PDict registry) \<and> (\<forall>entries. payload \<noteq> PDict entries) \<longrightarrow>
      addserver env payload serial srv
        = (Inr (reply (''Cannot update blaze server with a '' @ type_repr env payload
                 @ '' payload, since it is not a mutable mapping (dictionary like).'')
                 422), srv))
   \<and> (\<forall>registry entries.
        srv_data srv = PDict registry \<and> payload = PDict entries \<and> distinct (map fst entries)
        \<and> (\<forall>kv \<in> set entries. \<exists>r. resource env (snd kv) = Inr r) \<longrightarrow>
        (\<exists>merged. addserver env payload serial srv
                    = (Inr (reply ''OK'' 200), srv\<lparr>srv_data := PDict merged\<rparr>)
           \<and> (\<forall>k v. map_of entries k = Some v \<longrightarrow>
                  (\<exists>r. resource env v = Inr r \<and> map_of merged k = Some r))
           \<and> (\<forall>k. map_of entries k = None \<longrightarrow> map_of merged k = map_of registry k)))"
proof (intro conjI impI allI)
  assume "\<forall>registry. srv_data srv \<noteq> PDict registry"
  then show "addserver env payload serial srv
        = (Inr (reply (''Cannot update blaze server data since its current data is a ''
                 @ type_repr env (srv_data srv)
                 @ '' and not a mutable mapping (dictionary like).'') 422), srv)"
    by (cases "srv_data srv") (simp_all add: addserver_def)
next
  assume a: "(\<exists>registry. srv_data srv = PDict registry) \<and> (\<forall>entries. payload \<noteq> PDict entries)"
  then show "addserver env payload serial srv
        = (Inr (reply (''Cannot update blaze server with a '' @ type_repr env payload
                 @ '' payload, since it is not a mutable mapping (dictionary like).'')
                 422), srv)"
    by (cases payload) (auto simp add: addserver_def)
next
  fix registry entries
  assume a: "srv_data srv = PDict registry \<and> payload = PDict entries \<and> distinct (map fst entries)
        \<and> (\<forall>kv \<in> set entries. \<exists>r. resource env (snd kv) = Inr r)"
  then have "\<exists>r. valmap (resource env) entries = Inr r"
    by (intro valmap_all_resolve) force
  then obtain resolved where res: "valmap (resource env) entries = Inr resolved" ..
  have keys: "map fst resolved = map fst entries" by (rule valmap_keys [OF res])
  with a have dist: "distinct (map fst resolved)" by simp
  let ?merged = "dict_update registry resolved"
  have m: "map_of ?merged = map_of registry ++ map_of resolved"
    by (rule map_of_dict_update [OF dist])
  have 1: "addserver env payload serial srv
             = (Inr (reply ''OK'' 200), srv\<lparr>srv_data := PDict ?merged\<rparr>)"
    using a res by (simp add: addserver_def)
  have 2: "\<forall>k v. map_of entries k = Some v \<longrightarrow>
                  (\<exists>r. resource env v = Inr r \<and> map_of ?merged k = Some r)"
  proof (intro allI impI)
    fix k v assume "map_of entries k = Some v"
    from valmap_map_of [OF res this] obtain w
      where "resource env v = Inr w" and "map_of resolved k = Some w" by blast
    then show "\<exists>r. resource env v = Inr r \<and> map_of ?merged k = Some r"
      by (simp add: m)
  qed
  have 3: "\<forall>k. map_of entries k = None \<longrightarrow> map_of ?merged k = map_of registry k"
  proof (intro allI impI)
    fix k assume "map_of entries k = None"
    then have "k \<notin> fst ` set entries" by (simp add: map_of_eq_None_iff)
    then have "k \<notin> fst ` set resolved" using keys by (metis set_map)
    then have "map_of resolved k = None" by (simp add: map_of_eq_None_iff)
    then show "map_of ?merged k = map_of registry k" by (simp add: m map_add_def)
  qed
  from 1 2 3 show "\<exists>merged. addserver env payload serial srv
                    = (Inr (reply ''OK'' 200), srv\<lparr>srv_data := PDict merged\<rparr>)
           \<and> (\<forall>k v. map_of entries k = Some v \<longrightarrow>
                  (\<exists>r. resource env v = Inr r \<and> map_of merged k = Some r))
           \<and> (\<forall>k. map_of entries k = None \<longrightarrow> map_of merged k = map_of registry k)"
    by blast
qed


theorem addserver_contract_witness:
  "addserver example_env (PDict [(''a'', PStr ''a.csv'')]) example_format
     (example_server\<lparr>srv_data := PObj ''DataFrame''\<rparr>)
     = (Inr (reply (''Cannot update blaze server data since its current data is a ''
                    @ example_type_repr (PObj ''DataFrame'')
                    @ '' and not a mutable mapping (dictionary like).'') 422),
        example_server\<lparr>srv_data := PObj ''DataFrame''\<rparr>)
   \<and> addserver example_env (PList [PStr ''a.csv'']) example_format example_server
     = (Inr (reply (''Cannot update blaze server with a '' @ example_type_repr (PList [])
                    @ '' payload, since it is not a mutable mapping (dictionary like).'')
              422), example_server)
   \<and> addserver example_env (PDict [(''a'', PStr ''a.csv''), (''accounts'', PStr ''b.csv'')])
       example_format example_server
     = (Inr (reply ''OK'' 200),
        example_server\<lparr>srv_data := PDict [(''accounts'', PObj ''b.csv''), (''a'', PObj ''a.csv'')]\<rparr>)"
  using addserver_contract [of "example_server\<lparr>srv_data := PObj ''DataFrame''\<rparr>" example_env
      "PDict [(''a'', PStr ''a.csv'')]" example_format]
    addserver_contract [of example_server example_env "PList [PStr ''a.csv'']" example_format]
    addserver_contract [of example_server example_env
      "PDict [(''a'', PStr ''a.csv''), (''accounts'', PStr ''b.csv'')]" example_format]
  by (simp add: example_server_def example_env_def example_resource_def addserver_def
      example_type_repr_def)

lemma valmap_first_failure:
  "list_all (\<lambda>kv. \<exists>r. f (snd kv) = Inr r) good \<Longrightarrow> f v = Inl e \<Longrightarrow>
   valmap f (good @ (k, v) # rest) = Inl e"
  by (induction f good rule: valmap.induct) auto

text \<open>
  Claim C9, as stated, fails: with a payload of one entry that resolves and one entry
  whose resolution raises, nothing is merged (the registry is as before) and the
  exception of the failing resolution leaves the handler.
\<close>

theorem addserver_partial_merge_counterexample:
  "resource example_env (PStr ''a.csv'') = Inr (PObj ''a.csv'')
   \<and> resource example_env (PInt 5)
       = Inl (PyExc ''NotImplementedError'' [''RuntimeError'', ''Exception'', ''BaseException'']
               ''Unable to parse uri to data resource'')
   \<and> addserver example_env (PDict [(''a'', PStr ''a.csv''), (''x'', PInt 5)])
        example_format example_server
      = (Inl (PyExc ''NotImplementedError'' [''RuntimeError'', ''Exception'', ''BaseException'']
               ''Unable to parse uri to data resource''), example_server)
   \<and> srv_data example_server = PDict [(''accounts'', PObj ''accounts.csv'')]"
  by (simp add: example_server_def example_env_def example_resource_def addserver_def)

text \<open>
  Claim C9, amended. For every \<open>/add\<close> request against a mutable registry whose
  payload is a mapping in which some entry's resolution fails: the exception of the
  first failing resolution leaves the handler and the registry is unchanged; the
  entries that resolve are not merged.
\<close>

theorem addserver_all_or_nothing:
  assumes "srv_data srv = PDict registry"
    and "payload = PDict (good @ (k, v) # rest)"
    and "list_all (\<lambda>kv. \<exists>r. resource env (snd kv) = Inr r) good"
    and "resource env v = Inl e"
  shows "addserver env payload serial srv = (Inl e, srv)"
  using assms valmap_first_failure [of "resource env" good v e k rest]
  by (simp add: addserver_def)

theorem addserver_all_or_nothing_witness:
  "addserver example_env (PDict ([(''a'', PStr ''a.csv'')] @ (''x'', PInt 5) # [(''b'', PStr ''b.csv'')]))
        example_format example_server
      = (Inl (PyExc ''NotImplementedError'' [''RuntimeError'', ''Exception'', ''BaseException'']
               ''Unable to parse uri to data resource''), example_server)"
proof -
  have 1: "srv_data example_server = PDict [(''accounts'', PObj ''accounts.csv'')]"
    by (simp add: example_server_def)
  have 2: "list_all (\<lambda>kv. \<exists>r. resource example_env (snd kv) = Inr r) [(''a'', PStr ''a.csv'')]"
    by (simp add: example_env_def example_resource_def)
  have 3: "resource example_env (PInt 5)
       = Inl (PyExc ''NotImplementedError'' [''RuntimeError'', ''Exception'', ''BaseException'']
               ''Unable to parse uri to data resource'')"
    by (simp add: example_env_def example_resource_def)
  show ?thesis
    by (rule addserver_all_or_nothing [OF 1 refl 2 3])
qed

end
